theory Spec2Isabelle
  imports
    Main
    "HOL-Library.Word"
    "HOL-Library.Sublist"
    "HOL-Library.AList"
    "HOL-Library.List_Lexorder"
begin

section \<open>Python values\<close>

text \<open>
  A Python \<open>str\<close> is a sequence of Unicode code points, a \<open>bytes\<close> value a sequence
  of octets. String literals of the sources are written with \<open>lit\<close>; characters
  outside ASCII are given by their code point.
\<close>

type_synonym ustr = "nat list"
type_synonym byte = "8 word"

definition lit :: "string \<Rightarrow> ustr" where
  "lit s = map of_char s"

text \<open>Values that \<open>json.loads\<close> produces and that \<open>json.dumps\<close> accepts.\<close>

datatype pyval =
    PNone
  | PBool bool
  | PInt int
  | PStr ustr
  | PList "pyval list"
  | PDict "(ustr \<times> pyval) list"

type_synonym pydict = "(ustr \<times> pyval) list"

text \<open>
  Instances of Python's \<open>Exception\<close>: the class and the text that \<open>str(e)\<close> gives.
  \<open>OtherException\<close> stands for every class not named here.
\<close>

datatype exn_class =
    KeyError | TypeError | ValueError | AttributeError | RuntimeError
  | PermissionError | FileNotFoundError | IsADirectoryError | NotADirectoryError
  | FileExistsError | UnicodeDecodeError | UnicodeEncodeError | JSONDecodeError
  | OtherException

datatype exn = Exn exn_class ustr

fun exn_class_of :: "exn \<Rightarrow> exn_class" where
  "exn_class_of (Exn k m) = k"

fun str_exn :: "exn \<Rightarrow> ustr" where
  "str_exn (Exn k m) = m"

fun py_truthy :: "pyval \<Rightarrow> bool" where
  "py_truthy PNone = False"
| "py_truthy (PBool b) = b"
| "py_truthy (PInt i) = (i \<noteq> 0)"
| "py_truthy (PStr s) = (s \<noteq> [])"
| "py_truthy (PList xs) = (xs \<noteq> [])"
| "py_truthy (PDict kvs) = (kvs \<noteq> [])"

definition dict_get :: "pydict \<Rightarrow> ustr \<Rightarrow> pyval \<Rightarrow> pyval" where
  "dict_get d k dflt = (case map_of d k of Some v \<Rightarrow> v | None \<Rightarrow> dflt)"

text \<open>\<open>d[k]\<close>: a missing key raises \<open>KeyError\<close>, whose text is the \<open>repr\<close> of the key.\<close>

definition dict_item :: "pydict \<Rightarrow> ustr \<Rightarrow> exn + pyval" where
  "dict_item d k =
     (case map_of d k of
        Some v \<Rightarrow> Inr v
      | None \<Rightarrow> Inl (Exn KeyError (lit [CHR 0x27] @ k @ lit [CHR 0x27])))"

section \<open>String operations\<close>

function str_of_nat :: "nat \<Rightarrow> ustr" where
  "str_of_nat n = (if n < 10 then [48 + n] else str_of_nat (n div 10) @ [48 + n mod 10])"
  by pat_completeness auto
termination
  by (relation "measure id") auto

declare str_of_nat.simps [simp del]

function oct_digits :: "nat \<Rightarrow> ustr" where
  "oct_digits n = (if n < 8 then [48 + n] else oct_digits (n div 8) @ [48 + n mod 8])"
  by pat_completeness auto
termination
  by (relation "measure id") auto

declare oct_digits.simps [simp del]

text \<open>\<open>oct(n)\<close> and the slice \<open>s[-3:]\<close>.\<close>

definition py_oct :: "nat \<Rightarrow> ustr" where
  "py_oct n = lit ''0o'' @ oct_digits n"

definition last3 :: "ustr \<Rightarrow> ustr" where
  "last3 s = drop (length s - 3) s"

fun join :: "ustr \<Rightarrow> ustr list \<Rightarrow> ustr" where
  "join sep [] = []"
| "join sep [x] = x"
| "join sep (x # y # ys) = x @ sep @ join sep (y # ys)"

text \<open>\<open>s.split(c)\<close> for a separator of one character.\<close>

fun split_on :: "nat \<Rightarrow> ustr \<Rightarrow> ustr list" where
  "split_on c [] = [[]]"
| "split_on c (x # xs) =
     (if x = c then [] # split_on c xs
      else (case split_on c xs of
              seg # segs \<Rightarrow> (x # seg) # segs
            | [] \<Rightarrow> [[x]]))"

text \<open>\<open>sub in s\<close>.\<close>

fun str_contains :: "ustr \<Rightarrow> ustr \<Rightarrow> bool" where
  "str_contains sub [] = (sub = [])"
| "str_contains sub (c # cs) = (prefix sub (c # cs) \<or> str_contains sub cs)"

definition startswith :: "ustr \<Rightarrow> ustr \<Rightarrow> bool" where
  "startswith s p = prefix p s"

definition endswith :: "ustr \<Rightarrow> ustr \<Rightarrow> bool" where
  "endswith s p = prefix (rev p) (rev s)"

text \<open>\<open>s.replace(old, new)\<close>: every occurrence, left to right, without overlap.\<close>

function str_replace :: "ustr \<Rightarrow> ustr \<Rightarrow> ustr \<Rightarrow> ustr" where
  "str_replace old new [] = (if old = [] then new else [])"
| "str_replace old new (c # cs) =
     (if old = [] then new @ c # str_replace old new cs
      else if prefix old (c # cs)
        then new @ str_replace old new (drop (length old) (c # cs))
      else c # str_replace old new cs)"
  by pat_completeness auto
termination
  by (relation "measure (\<lambda>(old, new, s). length s)") auto

text \<open>
  The characters for which \<open>str.isspace\<close> holds; \<open>s.strip()\<close> removes them from both
  ends.
\<close>

definition is_space :: "nat \<Rightarrow> bool" where
  "is_space c \<longleftrightarrow>
     (0x09 \<le> c \<and> c \<le> 0x0D) \<or> (0x1C \<le> c \<and> c \<le> 0x20) \<or> c = 0x85 \<or> c = 0xA0
     \<or> c = 0x1680 \<or> (0x2000 \<le> c \<and> c \<le> 0x200A) \<or> c = 0x2028 \<or> c = 0x2029
     \<or> c = 0x202F \<or> c = 0x205F \<or> c = 0x3000"

definition strip :: "ustr \<Rightarrow> ustr" where
  "strip s = rev (dropWhile is_space (rev (dropWhile is_space s)))"

text \<open>
  \<open>str.lower\<close> is the interpreter's Unicode case mapping and is a parameter of the
  operations that use it. \<open>ascii_lower\<close> is that mapping on ASCII text.
\<close>

definition ascii_lower :: "ustr \<Rightarrow> ustr" where
  "ascii_lower s = map (\<lambda>c. if 65 \<le> c \<and> c \<le> 90 then c + 32 else c) s"

section \<open>Text files: UTF-8 and newline translation\<close>

definition encodable :: "nat \<Rightarrow> bool" where
  "encodable cp \<longleftrightarrow> cp < 0xD800 \<or> (0xE000 \<le> cp \<and> cp < 0x110000)"

definition utf8_char :: "nat \<Rightarrow> byte list" where
  "utf8_char cp =
     (if cp < 0x80 then [of_nat cp]
      else if cp < 0x800 then [of_nat (0xC0 + cp div 64), of_nat (0x80 + cp mod 64)]
      else if cp < 0x10000 then
        [of_nat (0xE0 + cp div 4096), of_nat (0x80 + cp div 64 mod 64),
         of_nat (0x80 + cp mod 64)]
      else
        [of_nat (0xF0 + cp div 262144), of_nat (0x80 + cp div 4096 mod 64),
         of_nat (0x80 + cp div 64 mod 64), of_nat (0x80 + cp mod 64)])"

text \<open>\<open>s.encode('utf-8')\<close>: a surrogate code point raises \<open>UnicodeEncodeError\<close>.\<close>

definition utf8_encode :: "ustr \<Rightarrow> byte list option" where
  "utf8_encode s = (if list_all encodable s then Some (concat (map utf8_char s)) else None)"

definition is_cont :: "byte \<Rightarrow> bool" where
  "is_cont b \<longleftrightarrow> 0x80 \<le> unat b \<and> unat b < 0xC0"

definition cont_val :: "byte \<Rightarrow> nat" where
  "cont_val b = unat b - 0x80"

text \<open>
  \<open>b.decode('utf-8')\<close>, strict: truncated sequences, overlong forms, surrogates and
  values above \<open>0x10FFFF\<close> raise \<open>UnicodeDecodeError\<close> (\<open>None\<close>).
\<close>

fun utf8_decode :: "byte list \<Rightarrow> ustr option" where
  "utf8_decode [] = Some []"
| "utf8_decode (b0 # bs) =
     (let n0 = unat b0 in
      if n0 < 0x80 then map_option (Cons n0) (utf8_decode bs)
      else if 0xC2 \<le> n0 \<and> n0 < 0xE0 then
        (case bs of
           b1 # r \<Rightarrow>
             if is_cont b1
             then map_option (Cons ((n0 - 0xC0) * 64 + cont_val b1)) (utf8_decode r)
             else None
         | _ \<Rightarrow> None)
      else if 0xE0 \<le> n0 \<and> n0 < 0xF0 then
        (case bs of
           b1 # b2 # r \<Rightarrow>
             (let cp = (n0 - 0xE0) * 4096 + cont_val b1 * 64 + cont_val b2 in
              if is_cont b1 \<and> is_cont b2 \<and> 0x800 \<le> cp \<and> encodable cp
              then map_option (Cons cp) (utf8_decode r)
              else None)
         | _ \<Rightarrow> None)
      else if 0xF0 \<le> n0 \<and> n0 < 0xF5 then
        (case bs of
           b1 # b2 # b3 # r \<Rightarrow>
             (let cp = (n0 - 0xF0) * 262144 + cont_val b1 * 4096 + cont_val b2 * 64
                        + cont_val b3 in
              if is_cont b1 \<and> is_cont b2 \<and> is_cont b3 \<and> 0x10000 \<le> cp \<and> cp < 0x110000
              then map_option (Cons cp) (utf8_decode r)
              else None)
         | _ \<Rightarrow> None)
      else None)"

text \<open>
  Text mode with the default \<open>newline=None\<close>. Writing replaces every \<open>\n\<close> by
  \<open>os.linesep\<close>; reading turns \<open>\r\n\<close> and a lone \<open>\r\<close> into \<open>\n\<close>.
\<close>

definition newline_out :: "ustr \<Rightarrow> ustr \<Rightarrow> ustr" where
  "newline_out linesep s = concat (map (\<lambda>c. if c = 10 then linesep else [c]) s)"

fun newline_in :: "ustr \<Rightarrow> ustr" where
  "newline_in [] = []"
| "newline_in [c] = (if c = 13 then [10] else [c])"
| "newline_in (c # d # cs) =
     (if c = 13 \<and> d = 10 then 10 # newline_in cs
      else if c = 13 then 10 # newline_in (d # cs)
      else c # newline_in (d # cs))"

text \<open>\<open>len(f.readlines())\<close> of a text: the number of lines, the last one counted
  when it is not empty.\<close>

definition count_lines :: "ustr \<Rightarrow> nat" where
  "count_lines s =
     (let segs = split_on 10 s in
      if last segs = [] then length segs - 1 else length segs)"

section \<open>The file store\<close>

text \<open>
  A POSIX file tree: canonical absolute paths (the components below the root) mapped to
  regular files with their bytes, directories, and symbolic links with their target
  text. Ownership, permission bits and free space are not part of the store, so no
  operation fails for lack of them.
\<close>

datatype node = File "byte list" | Dir | Symlink ustr

type_synonym path = "ustr list"
type_synonym store = "(path \<times> node) list"

definition lookup :: "store \<Rightarrow> path \<Rightarrow> node option" where
  "lookup st p = map_of st p"

definition is_absolute :: "ustr \<Rightarrow> bool" where
  "is_absolute s = startswith s [47]"

definition components :: "ustr \<Rightarrow> ustr list" where
  "components s = split_on 47 s"

definition render_path :: "path \<Rightarrow> ustr" where
  "render_path p = (if p = [] then [47] else concat (map (\<lambda>c. 47 # c) p))"

text \<open>
  \<open>os.path.realpath\<close>, which \<open>Path.resolve\<close> calls: the components are taken left to
  right; empty ones and \<open>.\<close> are skipped, \<open>..\<close> drops the last component (the root
  stays), a name that is a symbolic link is replaced by the resolution of its target,
  every other name is appended whether it exists or not. \<open>expand\<close> resolves a link
  target; \<open>None\<close> is a symlink loop.
\<close>

fun walk_path ::
  "(path \<Rightarrow> ustr \<Rightarrow> path option) \<Rightarrow> store \<Rightarrow> path \<Rightarrow> ustr list \<Rightarrow> path option" where
  "walk_path expand st cur [] = Some cur"
| "walk_path expand st cur (name # rest) =
     (if name = [] \<or> name = [46] then walk_path expand st cur rest
      else if name = [46, 46] then walk_path expand st (butlast cur) rest
      else (case lookup st (cur @ [name]) of
              Some (Symlink target) \<Rightarrow>
                (case expand cur target of
                   None \<Rightarrow> None
                 | Some cur' \<Rightarrow> walk_path expand st cur' rest)
            | _ \<Rightarrow> walk_path expand st (cur @ [name]) rest))"

text \<open>
  Links nested \<open>d\<close> deep are followed. A resolution that does not run into a loop
  never nests deeper than the number of links, so \<open>realpath\<close> takes the size of the
  store as the depth.
\<close>

primrec joinrealpath :: "nat \<Rightarrow> store \<Rightarrow> path \<Rightarrow> ustr list \<Rightarrow> path option" where
  "joinrealpath 0 st = walk_path (\<lambda>cur target. None) st"
| "joinrealpath (Suc d) st =
     walk_path (\<lambda>cur target.
        joinrealpath d st (if is_absolute target then [] else cur) (components target)) st"

definition realpath :: "store \<Rightarrow> path \<Rightarrow> path option" where
  "realpath st p = joinrealpath (length st) st [] p"

text \<open>
  \<open>Path(s).resolve()\<close> for a path text \<open>s\<close>, relative texts being taken from the
  working directory \<open>cwd\<close>. An embedded NUL raises \<open>ValueError\<close>, a symlink loop
  \<open>RuntimeError\<close>.
\<close>

definition resolve :: "store \<Rightarrow> path \<Rightarrow> ustr \<Rightarrow> exn + path" where
  "resolve st cwd s =
     (if 0 \<in> set s then Inl (Exn ValueError (lit ''embedded null byte''))
      else (case realpath st ((if is_absolute s then [] else cwd) @ components s) of
              None \<Rightarrow> Inl (Exn RuntimeError (lit ''Symlink loop from '' @ s))
            | Some p \<Rightarrow> Inr p))"

text \<open>What \<open>stat\<close> finds at a path, links followed.\<close>

definition follow :: "store \<Rightarrow> path \<Rightarrow> node option" where
  "follow st p =
     (case realpath st p of
        None \<Rightarrow> None
      | Some q \<Rightarrow> (case lookup st q of Some (Symlink t) \<Rightarrow> None | r \<Rightarrow> r))"

text \<open>The entries of a directory, in the order the store lists them.\<close>

definition listdir :: "store \<Rightarrow> path \<Rightarrow> ustr list" where
  "listdir st d = map (\<lambda>p. last p) (filter (\<lambda>p. p \<noteq> [] \<and> butlast p = d) (map fst st))"

text \<open>
  \<open>os.makedirs(p, exist_ok=True)\<close> and \<open>Path.mkdir(parents=True, exist_ok=True)\<close> on
  a canonical path: the missing directories are made from the root downwards. A
  regular file in the way raises \<open>NotADirectoryError\<close>, or \<open>FileExistsError\<close> when it
  is the path itself; the directories made before stay.
\<close>

fun mkdirs_from :: "store \<Rightarrow> path \<Rightarrow> ustr list \<Rightarrow> (exn + unit) \<times> store" where
  "mkdirs_from st cur [] = (Inr (), st)"
| "mkdirs_from st cur (name # rest) =
     (let q = cur @ [name] in
      case lookup st q of
        Some Dir \<Rightarrow> mkdirs_from st q rest
      | None \<Rightarrow> mkdirs_from (AList.update q Dir st) q rest
      | Some other \<Rightarrow>
          (if rest = []
           then (Inl (Exn FileExistsError
                   (lit ''[Errno 17] File exists: '' @ render_path q)), st)
           else (Inl (Exn NotADirectoryError
                   (lit ''[Errno 20] Not a directory: '' @ render_path (q @ [hd rest]))), st)))"

definition makedirs :: "store \<Rightarrow> path \<Rightarrow> (exn + unit) \<times> store" where
  "makedirs st p = mkdirs_from st [] p"

text \<open>
  \<open>open(p, 'w')\<close> on a canonical path: the file is created or truncated. The parent
  must be a directory and the path must not be one.
\<close>

definition is_dir_at :: "store \<Rightarrow> path \<Rightarrow> bool" where
  "is_dir_at st p \<longleftrightarrow> p = [] \<or> lookup st p = Some Dir"

definition open_w :: "store \<Rightarrow> path \<Rightarrow> (exn + unit) \<times> store" where
  "open_w st p =
     (if is_dir_at st p
        then (Inl (Exn IsADirectoryError
                (lit ''[Errno 21] Is a directory: '' @ render_path p)), st)
      else if \<not> is_dir_at st (butlast p)
        then (case lookup st (butlast p) of
                None \<Rightarrow> (Inl (Exn FileNotFoundError
                   (lit ''[Errno 2] No such file or directory: '' @ render_path p)), st)
              | Some other \<Rightarrow> (Inl (Exn NotADirectoryError
                   (lit ''[Errno 20] Not a directory: '' @ render_path p)), st))
      else (Inr (), AList.update p (File []) st))"

text \<open>
  \<open>f.write(content)\<close> on a file opened for writing in text mode: the text is
  translated, encoded and stored.
\<close>

definition write_text :: "ustr \<Rightarrow> store \<Rightarrow> path \<Rightarrow> ustr \<Rightarrow> (exn + unit) \<times> store" where
  "write_text linesep st p s =
     (case utf8_encode (newline_out linesep s) of
        None \<Rightarrow> (Inl (Exn UnicodeEncodeError
                  (lit ''utf-8 codec cannot encode character: surrogates not allowed'')), st)
      | Some bs \<Rightarrow> (Inr (), AList.update p (File bs) st))"

text \<open>\<open>open(p, 'r', encoding='utf-8')\<close> followed by \<open>f.read()\<close>, links followed.\<close>

definition read_text :: "store \<Rightarrow> path \<Rightarrow> exn + ustr" where
  "read_text st p =
     (case follow st p of
        None \<Rightarrow> Inl (Exn FileNotFoundError
                  (lit ''[Errno 2] No such file or directory: '' @ render_path p))
      | Some Dir \<Rightarrow> Inl (Exn IsADirectoryError
                  (lit ''[Errno 21] Is a directory: '' @ render_path p))
      | Some (File bs) \<Rightarrow>
          (case utf8_decode bs of
             None \<Rightarrow> Inl (Exn UnicodeDecodeError
                       (lit ''utf-8 codec cannot decode byte: invalid start byte''))
           | Some s \<Rightarrow> Inr (newline_in s))
      | Some (Symlink t) \<Rightarrow> Inl (Exn FileNotFoundError
                  (lit ''[Errno 2] No such file or directory: '' @ render_path p)))"

text \<open>
  The directory walk of \<open>os.walk\<close> and of \<open>Path.rglob("*")\<close>: the entries of a
  directory first, then the walk of each of its real subdirectories (a link to a
  directory is listed and not entered).
\<close>

lemma length_filter_mono:
  "(\<And>x. x \<in> set xs \<Longrightarrow> P x \<Longrightarrow> Q x) \<Longrightarrow> length (filter P xs) \<le> length (filter Q xs)"
  by (induction xs) auto

lemma length_filter_strict:
  assumes "\<And>x. x \<in> set xs \<Longrightarrow> P x \<Longrightarrow> Q x" and "y \<in> set xs" and "Q y" and "\<not> P y"
  shows "length (filter P xs) < length (filter Q xs)"
  using assms
proof (induction xs)
  case Nil
  then show ?case by simp
next
  case (Cons x xs)
  show ?case
  proof (cases "y = x")
    case True
    have "length (filter P xs) \<le> length (filter Q xs)"
      using Cons.prems(1) by (intro length_filter_mono) simp
    then show ?thesis using True Cons.prems by simp
  next
    case False
    then have "length (filter P xs) < length (filter Q xs)"
      using Cons by auto
    then show ?thesis using Cons.prems(1)[of x] by auto
  qed
qed

function walk_entries :: "store \<Rightarrow> path \<Rightarrow> path list" where
  "walk_entries st d =
     (let es = map (\<lambda>n. d @ [n]) (listdir st d) in
      es @ concat (map (walk_entries st) (filter (\<lambda>p. lookup st p = Some Dir) es)))"
  by pat_completeness auto
termination
proof (relation "measure (\<lambda>(st, d). length (filter (strict_prefix d) (map fst st)))", goal_cases)
  case 1
  then show ?case by simp
next
  case (2 st d es p)
  then obtain n where n: "n \<in> set (listdir st d)" and p: "p = d @ [n]"
    by auto
  from n have pin: "d @ [n] \<in> set (map fst st)"
    unfolding listdir_def by (auto simp: image_iff) (metis append_butlast_last_id fst_conv)
  have "length (filter (strict_prefix p) (map fst st))
          < length (filter (strict_prefix d) (map fst st))"
  proof (rule length_filter_strict[where y = p])
    fix x assume "strict_prefix p x"
    then show "strict_prefix d x" unfolding p
      by (metis prefix_order.dual_order.strict_trans strict_prefixI' append_Nil2
            strict_prefix_def prefixI)
  next
    show "p \<in> set (map fst st)" using pin p by simp
    show "strict_prefix d p" unfolding p by (simp add: strict_prefix_def)
    show "\<not> strict_prefix p p" by simp
  qed
  then show ?case by simp
qed

declare walk_entries.simps [simp del]

section \<open>Conversations, events and the world\<close>

text \<open>
  What the completion service exchanges with the agent. The temperature, a floating
  point constant, is left out of the request.
\<close>

record tool_call =
  call_id :: ustr
  call_name :: ustr
  call_arguments :: ustr

record response_message =
  rm_content :: "ustr option"
  rm_tool_calls :: "tool_call list option"

datatype message =
    RoleMsg ustr ustr
  | AssistantMsg response_message
  | ToolMsg ustr ustr ustr

record request =
  rq_model :: ustr
  rq_messages :: "message list"
  rq_tools :: "pyval list option"
  rq_tool_choice :: "ustr option"

datatype fs_op =
    OpExists | OpIsFile | OpIsDir | OpOpen | OpMakedirs | OpListdir | OpWalk | OpStat
  | OpGetsize

datatype cli_kind =
    CliQuestion | CliInfo | CliSuccess | CliWarning | CliError | CliAnswer | CliLoading

text \<open>
  The trace records, in order, the calls that leave the program: file system calls
  made after a path has been resolved, completion requests, tool dispatches, console
  output and the termination of server processes. \<open>running\<close> are the server processes
  that are alive.
\<close>

datatype event =
    FsCall fs_op path
  | Completion request
  | Dispatch ustr pydict
  | Cli cli_kind ustr
  | Terminate nat

record world =
  store :: store
  trace :: "event list"
  running :: "nat list"

type_synonym 'a io = "world \<Rightarrow> (exn + 'a) \<times> world"

definition io_return :: "'a \<Rightarrow> 'a io" where
  "io_return x = (\<lambda>w. (Inr x, w))"

definition io_raise :: "exn \<Rightarrow> 'a io" where
  "io_raise e = (\<lambda>w. (Inl e, w))"

definition io_bind :: "'a io \<Rightarrow> ('a \<Rightarrow> 'b io) \<Rightarrow> 'b io" where
  "io_bind m f = (\<lambda>w. case m w of (Inl e, w') \<Rightarrow> (Inl e, w') | (Inr x, w') \<Rightarrow> f x w')"

text \<open>\<open>try: m except Exception as e: h e\<close>.\<close>

definition io_try :: "'a io \<Rightarrow> (exn \<Rightarrow> 'a io) \<Rightarrow> 'a io" where
  "io_try m h = (\<lambda>w. case m w of (Inl e, w') \<Rightarrow> h e w' | (Inr x, w') \<Rightarrow> (Inr x, w'))"

definition io_lift :: "exn + 'a \<Rightarrow> 'a io" where
  "io_lift r = (\<lambda>w. (r, w))"

definition log_event :: "event \<Rightarrow> unit io" where
  "log_event e = (\<lambda>w. (Inr (), w\<lparr>trace := trace w @ [e]\<rparr>))"

definition fs_query :: "fs_op \<Rightarrow> path \<Rightarrow> (store \<Rightarrow> 'a) \<Rightarrow> 'a io" where
  "fs_query opn p f = (\<lambda>w. (Inr (f (store w)), w\<lparr>trace := trace w @ [FsCall opn p]\<rparr>))"

definition fs_update :: "fs_op \<Rightarrow> path \<Rightarrow> (store \<Rightarrow> (exn + 'a) \<times> store) \<Rightarrow> 'a io" where
  "fs_update opn p f =
     (\<lambda>w. case f (store w) of
             (r, st') \<Rightarrow> (r, w\<lparr>store := st', trace := trace w @ [FsCall opn p]\<rparr>))"

definition os_path_exists :: "path \<Rightarrow> bool io" where
  "os_path_exists p = fs_query OpExists p (\<lambda>st. follow st p \<noteq> None)"

definition os_path_isfile :: "path \<Rightarrow> bool io" where
  "os_path_isfile p =
     fs_query OpIsFile p (\<lambda>st. case follow st p of Some (File bs) \<Rightarrow> True | _ \<Rightarrow> False)"

definition os_path_isdir :: "path \<Rightarrow> bool io" where
  "os_path_isdir p = fs_query OpIsDir p (\<lambda>st. follow st p = Some Dir)"

definition os_makedirs :: "path \<Rightarrow> unit io" where
  "os_makedirs p = fs_update OpMakedirs p (\<lambda>st. makedirs st p)"

definition open_read :: "path \<Rightarrow> ustr io" where
  "open_read p = fs_update OpOpen p (\<lambda>st. (read_text st p, st))"

text \<open>\<open>with open(p, 'w', encoding='utf-8') as f: f.write(content)\<close>; a value that is
  not a \<open>str\<close> raises \<open>TypeError\<close> after the file has been opened.\<close>

definition open_write :: "ustr \<Rightarrow> path \<Rightarrow> pyval \<Rightarrow> unit io" where
  "open_write linesep p v =
     fs_update OpOpen p (\<lambda>st.
       case open_w st p of
         (Inl e, st') \<Rightarrow> (Inl e, st')
       | (Inr u, st') \<Rightarrow>
           (case v of
              PStr s \<Rightarrow> write_text linesep st' p s
            | _ \<Rightarrow> (Inl (Exn TypeError (lit ''write() argument must be str'')), st')))"

text \<open>
  What the interpreter, its library and the operating system supply: the working
  directory, \<open>os.linesep\<close>, \<open>str.lower\<close>, the \<open>stat\<close> fields that the store does
  not hold (the size of a directory, the modification time as \<open>str\<close> prints it, the
  mode), and \<open>json.loads\<close> and \<open>json.dumps\<close>.
\<close>

record pyenv =
  env_cwd :: path
  env_linesep :: ustr
  env_lower :: "ustr \<Rightarrow> ustr"
  env_dir_size :: "path \<Rightarrow> nat"
  env_mtime :: "path \<Rightarrow> ustr"
  env_mode :: "path \<Rightarrow> nat"
  env_json_loads :: "ustr \<Rightarrow> exn + pyval"
  env_json_dumps :: "pydict \<Rightarrow> ustr"

definition st_size :: "pyenv \<Rightarrow> store \<Rightarrow> path \<Rightarrow> nat" where
  "st_size env st p = (case follow st p of Some (File bs) \<Rightarrow> length bs | _ \<Rightarrow> env_dir_size env p)"

definition os_path_getsize :: "pyenv \<Rightarrow> path \<Rightarrow> nat io" where
  "os_path_getsize env p = fs_query OpGetsize p (\<lambda>st. st_size env st p)"

definition os_stat :: "pyenv \<Rightarrow> path \<Rightarrow> nat io" where
  "os_stat env p = fs_query OpStat p (\<lambda>st. st_size env st p)"

definition os_listdir :: "path \<Rightarrow> ustr list io" where
  "os_listdir p = fs_query OpListdir p (\<lambda>st. listdir st p)"

definition type_name :: "pyval \<Rightarrow> ustr" where
  "type_name v =
     (case v of
        PNone \<Rightarrow> lit ''NoneType'' | PBool b \<Rightarrow> lit ''bool'' | PInt i \<Rightarrow> lit ''int''
      | PStr s \<Rightarrow> lit ''str'' | PList xs \<Rightarrow> lit ''list'' | PDict kvs \<Rightarrow> lit ''dict'')"

text \<open>\<open>Path(v)\<close>: anything but a \<open>str\<close> raises \<open>TypeError\<close>.\<close>

definition pathlib_Path :: "pyval \<Rightarrow> exn + ustr" where
  "pathlib_Path v =
     (case v of
        PStr s \<Rightarrow> Inr s
      | _ \<Rightarrow> Inl (Exn TypeError
                (lit ''expected str, bytes or os.PathLike object, not '' @ type_name v)))"

definition access_denied :: exn where
  "access_denied = Exn PermissionError (lit ''Access denied: Path outside base directory'')"

section \<open>WindowsMCPClient: the file operations in process\<close>

text \<open>
  \<open>_safe_path(path, base_directory=".")\<close>: the target is resolved, then the base, and
  \<open>relative_to\<close> compares them component by component.
\<close>

definition win_safe_path :: "pyenv \<Rightarrow> store \<Rightarrow> pyval \<Rightarrow> exn + path" where
  "win_safe_path env st v =
     (case pathlib_Path v of
        Inl e \<Rightarrow> Inl e
      | Inr s \<Rightarrow>
         (case resolve st (env_cwd env) s of
            Inl e \<Rightarrow> Inl e
          | Inr resolved_path \<Rightarrow>
             (case resolve st (env_cwd env) [46] of
                Inl e \<Rightarrow> Inl e
              | Inr base_resolved \<Rightarrow>
                  if prefix base_resolved resolved_path then Inr resolved_path
                  else Inl access_denied)))"

definition win_safe_path_io :: "pyenv \<Rightarrow> pyval \<Rightarrow> path io" where
  "win_safe_path_io env v = (\<lambda>w. (win_safe_path env (store w) v, w))"

definition failure :: "ustr \<Rightarrow> pydict" where
  "failure msg =
     [(lit ''success'', PBool False), (lit ''error'', PStr msg), (lit ''result'', PStr [])]"

definition success :: "ustr \<Rightarrow> ustr \<Rightarrow> pydict" where
  "success res tool =
     [(lit ''success'', PBool True), (lit ''result'', PStr res), (lit ''tool_name'', PStr tool)]"

text \<open>The text of an argument at a place where it is known to be a \<open>str\<close>: the
  formatted messages are built only after \<open>Path\<close> or \<open>lower\<close> has accepted the value.\<close>

definition text_of :: "pyval \<Rightarrow> ustr" where
  "text_of v = (case v of PStr s \<Rightarrow> s | _ \<Rightarrow> [])"

definition read_file_direct :: "pyenv \<Rightarrow> pyval \<Rightarrow> pydict io" where
  "read_file_direct env file_path =
     io_try
       (io_bind (win_safe_path_io env file_path) (\<lambda>safe_path.
        io_bind (os_path_exists safe_path) (\<lambda>ex.
          if \<not> ex then io_return (failure (lit ''File not found: '' @ text_of file_path))
          else
            io_bind (os_path_isfile safe_path) (\<lambda>isf.
              if \<not> isf
              then io_return (failure (lit ''Path is not a file: '' @ text_of file_path))
              else
                io_bind (open_read safe_path) (\<lambda>content.
                  io_return
                    (success (lit ''File: '' @ text_of file_path @ [10] @ lit ''---'' @ [10]
                               @ content)
                       (lit ''mcp_read_file'')))))))
       (\<lambda>e. if exn_class_of e = UnicodeDecodeError
            then io_return (failure (lit ''Unable to read file (binary or encoding issue): ''
                                      @ text_of file_path))
            else io_return (failure (lit ''Error reading file: '' @ str_exn e)))"

text \<open>\<open>len(v)\<close>.\<close>

definition py_len :: "pyval \<Rightarrow> exn + nat" where
  "py_len v =
     (case v of
        PStr s \<Rightarrow> Inr (length s)
      | PList xs \<Rightarrow> Inr (length xs)
      | PDict kvs \<Rightarrow> Inr (length kvs)
      | _ \<Rightarrow> Inl (Exn TypeError (lit ''object of type '' @ type_name v @ lit '' has no len()'')))"

definition write_file_direct :: "pyenv \<Rightarrow> pyval \<Rightarrow> pyval \<Rightarrow> pydict io" where
  "write_file_direct env file_path content =
     io_try
       (io_bind (win_safe_path_io env file_path) (\<lambda>safe_path.
        io_bind (os_makedirs (butlast safe_path)) (\<lambda>u.
        io_bind (open_write (env_linesep env) safe_path content) (\<lambda>u.
        io_bind (io_lift (py_len content)) (\<lambda>n.
          io_return
            (success (lit ''Successfully wrote '' @ str_of_nat n @ lit '' characters to: ''
                       @ text_of file_path)
               (lit ''mcp_write_file'')))))))
       (\<lambda>e. io_return (failure (lit ''Error writing file: '' @ str_exn e)))"

text \<open>The loop over \<open>sorted(os.listdir(safe_path))\<close>.\<close>

fun list_items_direct :: "pyenv \<Rightarrow> path \<Rightarrow> ustr list \<Rightarrow> ustr list \<Rightarrow> ustr list io" where
  "list_items_direct env safe_path [] items = io_return items"
| "list_items_direct env safe_path (item # rest) items =
     io_bind (os_path_isdir (safe_path @ [item])) (\<lambda>isd.
     io_bind (os_path_isfile (safe_path @ [item])) (\<lambda>isf.
     io_bind (if isf
              then io_bind (os_path_getsize env (safe_path @ [item])) (\<lambda>n.
                     io_return (lit '' ('' @ str_of_nat n @ lit '' bytes)''))
              else io_return []) (\<lambda>size.
       list_items_direct env safe_path rest
         (items @ [(if isd then [0x1F4C1] else [0x1F4C4]) @ [32] @ item @ size]))))"

definition list_directory_direct :: "pyenv \<Rightarrow> pyval \<Rightarrow> pydict io" where
  "list_directory_direct env directory_path =
     io_try
       (io_bind (win_safe_path_io env directory_path) (\<lambda>safe_path.
        io_bind (os_path_exists safe_path) (\<lambda>ex.
          if \<not> ex
          then io_return (failure (lit ''Directory not found: '' @ text_of directory_path))
          else
            io_bind (os_path_isdir safe_path) (\<lambda>isd.
              if \<not> isd
              then io_return
                     (failure (lit ''Path is not a directory: '' @ text_of directory_path))
              else
                io_bind (os_listdir safe_path) (\<lambda>names.
                io_bind (list_items_direct env safe_path (sort names) []) (\<lambda>items.
                  io_return
                    (success
                       (lit ''Directory: '' @ text_of directory_path @ [10] @ lit ''---''
                          @ [10] @ join [10] items
                          @ (if items = [] then lit ''(empty directory)'' else []))
                       (lit ''mcp_list_directory''))))))))
       (\<lambda>e. io_return (failure (lit ''Error listing directory: '' @ str_exn e)))"

text \<open>\<open>search_term.lower()\<close> and \<open>file.endswith(file_extension)\<close> on values of any type.\<close>

definition lower_of :: "pyenv \<Rightarrow> pyval \<Rightarrow> exn + ustr" where
  "lower_of env v =
     (case v of
        PStr s \<Rightarrow> Inr (env_lower env s)
      | _ \<Rightarrow> Inl (Exn AttributeError
                ([39] @ type_name v @ [39] @ lit '' object has no attribute '' @ [39]
                   @ lit ''lower'' @ [39])))"

text \<open>\<open>file_extension and not name.endswith(file_extension)\<close>: whether the file is
  skipped.\<close>

definition extension_skips :: "pyval \<Rightarrow> ustr \<Rightarrow> exn + bool" where
  "extension_skips file_extension name =
     (if \<not> py_truthy file_extension then Inr False
      else (case file_extension of
              PStr ext \<Rightarrow> Inr (\<not> endswith name ext)
            | _ \<Rightarrow> Inl (Exn TypeError
                      (lit ''endswith first arg must be str or a tuple of str, not ''
                         @ type_name file_extension))))"

text \<open>The loop \<open>for i, line in enumerate(lines, 1)\<close> that collects the matching lines.\<close>

fun matching_lines_loop ::
  "(ustr \<Rightarrow> ustr) \<Rightarrow> ustr \<Rightarrow> nat \<Rightarrow> ustr list \<Rightarrow> ustr list \<Rightarrow> ustr list" where
  "matching_lines_loop lower term_lower i [] matching_lines = matching_lines"
| "matching_lines_loop lower term_lower i (line # rest) matching_lines =
     matching_lines_loop lower term_lower (Suc i) rest
       (if str_contains term_lower (lower line)
        then matching_lines @ [lit ''  Line '' @ str_of_nat i @ lit '': '' @ strip line]
        else matching_lines)"

text \<open>What one file whose text \<open>content\<close> has been read adds to \<open>matches\<close>; \<open>icon\<close> is
  the marker each source puts before the relative path.\<close>

definition file_matches ::
  "(ustr \<Rightarrow> ustr) \<Rightarrow> ustr \<Rightarrow> ustr \<Rightarrow> ustr \<Rightarrow> ustr \<Rightarrow> ustr list \<Rightarrow> ustr list" where
  "file_matches lower icon term_lower relative_path content matches =
     (if str_contains term_lower (lower content)
      then
        (let matching_lines = matching_lines_loop lower term_lower 1 (split_on 10 content) []
         in matches @ [icon @ [32] @ relative_path @ lit '':''] @ take 3 matching_lines
              @ (if length matching_lines > 3
                 then [lit ''  ... and '' @ str_of_nat (length matching_lines - 3)
                         @ lit '' more matches'']
                 else [])
              @ [[]])
      else matches)"

definition relpath :: "path \<Rightarrow> path \<Rightarrow> ustr" where
  "relpath file_path safe_path = join [47] (drop (length safe_path) file_path)"

text \<open>\<open>os.walk\<close>: the files are the entries that are not directories, links followed.\<close>

definition os_walk_files :: "path \<Rightarrow> path list io" where
  "os_walk_files p =
     fs_query OpWalk p (\<lambda>st. filter (\<lambda>q. follow st q \<noteq> Some Dir) (walk_entries st p))"

fun search_loop_direct ::
  "pyenv \<Rightarrow> ustr \<Rightarrow> pyval \<Rightarrow> path \<Rightarrow> path list \<Rightarrow> ustr list \<Rightarrow> ustr list io" where
  "search_loop_direct env term_lower file_extension safe_path [] matches = io_return matches"
| "search_loop_direct env term_lower file_extension safe_path (file_path # rest) matches =
     io_bind (io_lift (extension_skips file_extension (last file_path))) (\<lambda>skip.
       if skip then search_loop_direct env term_lower file_extension safe_path rest matches
       else
         io_bind
           (io_try
              (io_bind (open_read file_path) (\<lambda>content.
                 io_return (file_matches (env_lower env) [0x1F4C4] term_lower
                              (relpath file_path safe_path) content matches)))
              (\<lambda>e. if exn_class_of e = UnicodeDecodeError \<or> exn_class_of e = PermissionError
                   then io_return matches else io_raise e))
           (\<lambda>matches'.
              search_loop_direct env term_lower file_extension safe_path rest matches'))"

definition search_result_text :: "ustr \<Rightarrow> ustr \<Rightarrow> ustr list \<Rightarrow> ustr" where
  "search_result_text search_term directory_path matches =
     (if matches \<noteq> []
      then lit ''Search results for '' @ [39] @ search_term @ [39] @ lit '' in ''
             @ directory_path @ lit '':'' @ [10] @ lit ''---'' @ [10] @ join [10] matches
      else lit ''No matches found for '' @ [39] @ search_term @ [39] @ lit '' in ''
             @ directory_path)"

definition search_files_direct :: "pyenv \<Rightarrow> pyval \<Rightarrow> pyval \<Rightarrow> pyval \<Rightarrow> pydict io" where
  "search_files_direct env search_term directory_path file_extension =
     io_try
       (io_bind (win_safe_path_io env directory_path) (\<lambda>safe_path.
        io_bind (os_path_exists safe_path) (\<lambda>ex.
        io_bind (if ex then os_path_isdir safe_path else io_return False) (\<lambda>isd.
          if \<not> ex \<or> \<not> isd
          then io_return (failure (lit ''Invalid directory: '' @ text_of directory_path))
          else
            io_bind (io_lift (lower_of env search_term)) (\<lambda>term_lower.
            io_bind (os_walk_files safe_path) (\<lambda>files.
            io_bind (search_loop_direct env term_lower file_extension safe_path files [])
              (\<lambda>matches.
                io_return
                  (success
                     (search_result_text (text_of search_term) (text_of directory_path)
                        matches)
                     (lit ''mcp_search_files'')))))))))
       (\<lambda>e. io_return (failure (lit ''Error searching files: '' @ str_exn e)))"

definition type_line :: "bool \<Rightarrow> ustr" where
  "type_line isd = lit ''Type: '' @ (if isd then lit ''Directory'' else lit ''File'')"

definition file_info_direct :: "pyenv \<Rightarrow> pyval \<Rightarrow> pydict io" where
  "file_info_direct env path_arg =
     io_try
       (io_bind (win_safe_path_io env path_arg) (\<lambda>safe_path.
        io_bind (os_path_exists safe_path) (\<lambda>ex.
          if \<not> ex then io_return (failure (lit ''Path not found: '' @ text_of path_arg))
          else
            io_bind (os_stat env safe_path) (\<lambda>size.
            io_bind (os_path_isdir safe_path) (\<lambda>isd.
            io_bind (os_path_isfile safe_path) (\<lambda>isf.
            io_bind
              (if isf
               then io_try
                      (io_bind (open_read safe_path) (\<lambda>text.
                         io_return [lit ''Lines: '' @ str_of_nat (count_lines text)]))
                      (\<lambda>e. if exn_class_of e = UnicodeDecodeError
                           then io_return [lit ''Type: Binary file''] else io_raise e)
               else io_return [])
              (\<lambda>extra.
                io_return
                  (success
                     (lit ''File Information:'' @ [10] @ lit ''---'' @ [10]
                        @ join [10]
                            ([lit ''Path: '' @ text_of path_arg,
                              type_line isd,
                              lit ''Size: '' @ str_of_nat size @ lit '' bytes'',
                              lit ''Last modified: '' @ env_mtime env safe_path] @ extra))
                     (lit ''mcp_file_info'')))))))))
       (\<lambda>e. io_return (failure (lit ''Error getting file info: '' @ str_exn e)))"

text \<open>\<open>WindowsMCPClient.execute_mcp_tool\<close>.\<close>

definition win_execute_mcp_tool :: "pyenv \<Rightarrow> ustr \<Rightarrow> pydict \<Rightarrow> pydict io" where
  "win_execute_mcp_tool env tool_name arguments =
     io_try
       (let operation = str_replace (lit ''mcp_'') [] tool_name in
        if operation = lit ''read_file'' then
          io_bind (io_lift (dict_item arguments (lit ''file_path''))) (\<lambda>file_path.
            read_file_direct env file_path)
        else if operation = lit ''write_file'' then
          io_bind (io_lift (dict_item arguments (lit ''file_path''))) (\<lambda>file_path.
          io_bind (io_lift (dict_item arguments (lit ''content''))) (\<lambda>content.
            write_file_direct env file_path content))
        else if operation = lit ''list_directory'' then
          list_directory_direct env (dict_get arguments (lit ''directory_path'') (PStr [46]))
        else if operation = lit ''search_files'' then
          io_bind (io_lift (dict_item arguments (lit ''search_term''))) (\<lambda>search_term.
            search_files_direct env search_term
              (dict_get arguments (lit ''directory_path'') (PStr [46]))
              (dict_get arguments (lit ''file_extension'') (PStr [])))
        else if operation = lit ''file_info'' then
          io_bind (io_lift (dict_item arguments (lit ''path''))) (\<lambda>path_arg.
            file_info_direct env path_arg)
        else io_return (failure (lit ''Unknown MCP operation: '' @ operation)))
       (\<lambda>e. io_return
              (failure (lit ''Error executing '' @ tool_name @ lit '': '' @ str_exn e)))"

section \<open>FileSystemMCPServer: the file operations behind the protocol\<close>

text \<open>
  The server keeps \<open>base_directory\<close>, resolved when it is constructed. Every handler
  answers with a list of text fragments.
\<close>

definition server_init :: "pyenv \<Rightarrow> store \<Rightarrow> ustr \<Rightarrow> exn + path" where
  "server_init env st base_directory = resolve st (env_cwd env) base_directory"

definition srv_safe_path :: "path \<Rightarrow> store \<Rightarrow> pyval \<Rightarrow> exn + path" where
  "srv_safe_path base_directory st v =
     (case pathlib_Path v of
        Inl e \<Rightarrow> Inl e
      | Inr s \<Rightarrow>
         (case resolve st base_directory s of
            Inl e \<Rightarrow> Inl e
          | Inr resolved_path \<Rightarrow>
              if prefix base_directory resolved_path then Inr resolved_path
              else Inl access_denied))"

definition srv_safe_path_io :: "path \<Rightarrow> pyval \<Rightarrow> path io" where
  "srv_safe_path_io base_directory v = (\<lambda>w. (srv_safe_path base_directory (store w) v, w))"

definition srv_read_file :: "path \<Rightarrow> pyval \<Rightarrow> ustr list io" where
  "srv_read_file base file_path =
     io_try
       (io_bind (srv_safe_path_io base file_path) (\<lambda>safe_path.
        io_bind (os_path_exists safe_path) (\<lambda>ex.
          if \<not> ex then io_return [lit ''Error: File not found: '' @ text_of file_path]
          else
            io_bind (os_path_isfile safe_path) (\<lambda>isf.
              if \<not> isf
              then io_return [lit ''Error: Path is not a file: '' @ text_of file_path]
              else
                io_bind (open_read safe_path) (\<lambda>content.
                  io_return
                    [lit ''File: '' @ text_of file_path @ [10] @ lit ''---'' @ [10]
                       @ content])))))
       (\<lambda>e. if exn_class_of e = UnicodeDecodeError
            then io_return [lit ''Error: Unable to read file (binary or encoding issue): ''
                              @ text_of file_path]
            else io_return [lit ''Error reading file: '' @ str_exn e])"

definition srv_write_file :: "pyenv \<Rightarrow> path \<Rightarrow> pyval \<Rightarrow> pyval \<Rightarrow> ustr list io" where
  "srv_write_file env base file_path content =
     io_try
       (io_bind (srv_safe_path_io base file_path) (\<lambda>safe_path.
        io_bind (os_makedirs (butlast safe_path)) (\<lambda>u.
        io_bind (open_write (env_linesep env) safe_path content) (\<lambda>u.
        io_bind (io_lift (py_len content)) (\<lambda>n.
          io_return
            [lit ''Successfully wrote '' @ str_of_nat n @ lit '' characters to: ''
               @ text_of file_path])))))
       (\<lambda>e. io_return [lit ''Error writing file: '' @ str_exn e])"

fun srv_list_items :: "pyenv \<Rightarrow> path \<Rightarrow> ustr list \<Rightarrow> ustr list \<Rightarrow> ustr list io" where
  "srv_list_items env safe_path [] items = io_return items"
| "srv_list_items env safe_path (item # rest) items =
     io_bind (os_path_isdir (safe_path @ [item])) (\<lambda>isd.
     io_bind (os_path_isfile (safe_path @ [item])) (\<lambda>isf.
     io_bind (if isf
              then io_bind (os_stat env (safe_path @ [item])) (\<lambda>n.
                     io_return (lit '' ('' @ str_of_nat n @ lit '' bytes)''))
              else io_return []) (\<lambda>size.
       srv_list_items env safe_path rest
         (items @ [(if isd then [0xF0, 0x178, 0x201C] else [0xF0, 0x178, 0x201C, 0x201E])
                     @ [32] @ item @ size]))))"

definition srv_list_directory :: "pyenv \<Rightarrow> path \<Rightarrow> pyval \<Rightarrow> ustr list io" where
  "srv_list_directory env base directory_path =
     io_try
       (io_bind (srv_safe_path_io base directory_path) (\<lambda>safe_path.
        io_bind (os_path_exists safe_path) (\<lambda>ex.
          if \<not> ex
          then io_return [lit ''Error: Directory not found: '' @ text_of directory_path]
          else
            io_bind (os_path_isdir safe_path) (\<lambda>isd.
              if \<not> isd
              then io_return
                     [lit ''Error: Path is not a directory: '' @ text_of directory_path]
              else
                io_bind (os_listdir safe_path) (\<lambda>names.
                io_bind (srv_list_items env safe_path (sort names) []) (\<lambda>items.
                  io_return
                    [lit ''Directory: '' @ text_of directory_path @ [10] @ lit ''---''
                       @ [10] @ join [10] items
                       @ (if items = [] then lit ''(empty directory)'' else [])]))))))
       (\<lambda>e. io_return [lit ''Error listing directory: '' @ str_exn e])"

text \<open>\<open>safe_path.rglob("*")\<close> gives every entry below the directory.\<close>

definition rglob_all :: "path \<Rightarrow> path list io" where
  "rglob_all p = fs_query OpWalk p (\<lambda>st. walk_entries st p)"

fun srv_search_loop ::
  "pyenv \<Rightarrow> ustr \<Rightarrow> pyval \<Rightarrow> path \<Rightarrow> path list \<Rightarrow> ustr list \<Rightarrow> ustr list io" where
  "srv_search_loop env term_lower file_extension safe_path [] matches = io_return matches"
| "srv_search_loop env term_lower file_extension safe_path (file_path # rest) matches =
     io_bind (os_path_isfile file_path) (\<lambda>isf.
       if \<not> isf then srv_search_loop env term_lower file_extension safe_path rest matches
       else
         io_bind (io_lift (extension_skips file_extension (last file_path))) (\<lambda>skip.
           if skip then srv_search_loop env term_lower file_extension safe_path rest matches
           else
             io_bind
               (io_try
                  (io_bind (open_read file_path) (\<lambda>content.
                     io_return (file_matches (env_lower env) [0xF0, 0x178, 0x201C, 0x201E]
                                  term_lower (relpath file_path safe_path) content matches)))
                  (\<lambda>e. if exn_class_of e = UnicodeDecodeError
                          \<or> exn_class_of e = PermissionError
                       then io_return matches else io_raise e))
               (\<lambda>matches'.
                  srv_search_loop env term_lower file_extension safe_path rest matches')))"

definition srv_search_files ::
  "pyenv \<Rightarrow> path \<Rightarrow> pyval \<Rightarrow> pyval \<Rightarrow> pyval \<Rightarrow> ustr list io" where
  "srv_search_files env base search_term directory_path file_extension =
     io_try
       (io_bind (srv_safe_path_io base directory_path) (\<lambda>safe_path.
        io_bind (os_path_exists safe_path) (\<lambda>ex.
        io_bind (if ex then os_path_isdir safe_path else io_return False) (\<lambda>isd.
          if \<not> ex \<or> \<not> isd
          then io_return [lit ''Error: Invalid directory: '' @ text_of directory_path]
          else
            io_bind (io_lift (lower_of env search_term)) (\<lambda>term_lower.
            io_bind (rglob_all safe_path) (\<lambda>entries.
            io_bind (srv_search_loop env term_lower file_extension safe_path entries [])
              (\<lambda>matches.
                io_return
                  [search_result_text (text_of search_term) (text_of directory_path)
                     matches])))))))
       (\<lambda>e. io_return [lit ''Error searching files: '' @ str_exn e])"

definition srv_file_info :: "pyenv \<Rightarrow> path \<Rightarrow> pyval \<Rightarrow> ustr list io" where
  "srv_file_info env base path_arg =
     io_try
       (io_bind (srv_safe_path_io base path_arg) (\<lambda>safe_path.
        io_bind (os_path_exists safe_path) (\<lambda>ex.
          if \<not> ex then io_return [lit ''Error: Path not found: '' @ text_of path_arg]
          else
            io_bind (os_stat env safe_path) (\<lambda>size.
            io_bind (os_path_isdir safe_path) (\<lambda>isd.
            io_bind (os_path_isfile safe_path) (\<lambda>isf.
            io_bind
              (if isf
               then io_try
                      (io_bind (open_read safe_path) (\<lambda>text.
                         io_return [lit ''Lines: '' @ str_of_nat (count_lines text)]))
                      (\<lambda>e. if exn_class_of e = UnicodeDecodeError
                           then io_return [lit ''Type: Binary file''] else io_raise e)
               else io_return [])
              (\<lambda>extra.
                io_return
                  [lit ''File Information:'' @ [10] @ lit ''---'' @ [10]
                     @ join [10]
                         ([lit ''Path: '' @ text_of path_arg,
                           type_line isd,
                           lit ''Size: '' @ str_of_nat size @ lit '' bytes'',
                           lit ''Last modified: '' @ env_mtime env safe_path,
                           lit ''Permissions: '' @ last3 (py_oct (env_mode env safe_path))]
                          @ extra)])))))))
       (\<lambda>e. io_return [lit ''Error getting file info: '' @ str_exn e])"

text \<open>\<open>handle_call_tool\<close>.\<close>

definition handle_call_tool :: "pyenv \<Rightarrow> path \<Rightarrow> ustr \<Rightarrow> pydict \<Rightarrow> ustr list io" where
  "handle_call_tool env base name arguments =
     io_try
       (if name = lit ''read_file'' then
          io_bind (io_lift (dict_item arguments (lit ''file_path''))) (\<lambda>file_path.
            srv_read_file base file_path)
        else if name = lit ''write_file'' then
          io_bind (io_lift (dict_item arguments (lit ''file_path''))) (\<lambda>file_path.
          io_bind (io_lift (dict_item arguments (lit ''content''))) (\<lambda>content.
            srv_write_file env base file_path content))
        else if name = lit ''list_directory'' then
          srv_list_directory env base (dict_get arguments (lit ''directory_path'') (PStr [46]))
        else if name = lit ''search_files'' then
          io_bind (io_lift (dict_item arguments (lit ''search_term''))) (\<lambda>search_term.
            srv_search_files env base search_term
              (dict_get arguments (lit ''directory_path'') (PStr [46]))
              (dict_get arguments (lit ''file_extension'') (PStr [])))
        else if name = lit ''file_info'' then
          io_bind (io_lift (dict_item arguments (lit ''path''))) (\<lambda>path_arg.
            srv_file_info env base path_arg)
        else io_raise (Exn ValueError (lit ''Unknown tool: '' @ name)))
       (\<lambda>e. io_return [lit ''Error executing '' @ name @ lit '': '' @ str_exn e])"

section \<open>AgentTools: the local tools\<close>

text \<open>
  Passing \<open>**kwargs\<close> to a function: a key that names a parameter already given
  positionally raises \<open>TypeError\<close>, so does a key that is no parameter when the
  function takes no \<open>**kwargs\<close> of its own, and so does a missing required parameter.
\<close>

definition bind_arguments ::
  "ustr \<Rightarrow> ustr list \<Rightarrow> ustr list \<Rightarrow> ustr list \<Rightarrow> bool \<Rightarrow> pydict \<Rightarrow> exn + unit" where
  "bind_arguments fname positional required optional var_keyword kwargs =
     (case filter (\<lambda>k. k \<in> set positional) (map fst kwargs) of
        k # ks \<Rightarrow> Inl (Exn TypeError
                  (fname @ lit ''() got multiple values for argument '' @ [39] @ k @ [39]))
      | [] \<Rightarrow>
        (case filter (\<lambda>k. \<not> var_keyword \<and> k \<notin> set required \<and> k \<notin> set optional)
                (map fst kwargs) of
           k # ks \<Rightarrow> Inl (Exn TypeError
                     (fname @ lit ''() got an unexpected keyword argument '' @ [39] @ k @ [39]))
         | [] \<Rightarrow>
           (case filter (\<lambda>k. k \<notin> set (map fst kwargs)) required of
              k # ks \<Rightarrow> Inl (Exn TypeError
                        (fname @ lit ''() missing required positional argument: '' @ [39] @ k
                           @ [39]))
            | [] \<Rightarrow> Inr ())))"

text \<open>
  The services outside the program: the completion service, the document retrieval
  of the RAG source, and the web search. The body of \<open>search_web\<close> (HTTP requests,
  keyword heuristics and simulated data) is not modelled: \<open>svc_web\<close> gives the result
  list and the count that its \<open>try\<close> block computes, or the exception it raises.
  \<open>svc_has_rag\<close> tells whether \<open>VectorizeWrapper()\<close> can be constructed.
\<close>

record services =
  svc_complete :: "request \<Rightarrow> exn + response_message"
  svc_retrieve :: "pyval \<Rightarrow> pyval \<Rightarrow> exn + pyval list"
  svc_web :: "pyval \<Rightarrow> pyval \<Rightarrow> exn + pyval list \<times> nat"
  svc_has_rag :: bool

definition param :: "ustr \<Rightarrow> ustr \<Rightarrow> ustr \<Rightarrow> ustr \<times> pyval" where
  "param name ty description =
     (name, PDict [(lit ''type'', PStr ty), (lit ''description'', PStr description)])"

definition param_default :: "ustr \<Rightarrow> ustr \<Rightarrow> ustr \<Rightarrow> pyval \<Rightarrow> ustr \<times> pyval" where
  "param_default name ty description dflt =
     (name, PDict [(lit ''type'', PStr ty), (lit ''description'', PStr description),
                   (lit ''default'', dflt)])"

definition schema :: "(ustr \<times> pyval) list \<Rightarrow> ustr list option \<Rightarrow> pyval" where
  "schema props required =
     PDict ([(lit ''type'', PStr (lit ''object'')), (lit ''properties'', PDict props)]
            @ (case required of
                 None \<Rightarrow> []
               | Some names \<Rightarrow> [(lit ''required'', PList (map PStr names))]))"

definition function_tool :: "ustr \<Rightarrow> ustr \<Rightarrow> pyval \<Rightarrow> pydict" where
  "function_tool name description parameters =
     [(lit ''type'', PStr (lit ''function'')),
      (lit ''function'',
         PDict [(lit ''name'', PStr name), (lit ''description'', PStr description),
                (lit ''parameters'', parameters)])]"

text \<open>\<open>tool["function"]["name"]\<close>.\<close>

definition tool_name_of :: "pyval \<Rightarrow> ustr option" where
  "tool_name_of tool =
     (case tool of
        PDict kvs \<Rightarrow>
          (case map_of kvs (lit ''function'') of
             Some (PDict f) \<Rightarrow>
               (case map_of f (lit ''name'') of Some (PStr n) \<Rightarrow> Some n | _ \<Rightarrow> None)
           | _ \<Rightarrow> None)
      | _ \<Rightarrow> None)"

definition search_documents_tool :: pyval where
  "search_documents_tool =
     PDict (function_tool (lit ''search_documents'')
       (lit ''Search through uploaded documents to find relevant information.'')
       (schema
          [param (lit ''query'') (lit ''string'')
             (lit ''The search query to find relevant documents''),
           param_default (lit ''num_results'') (lit ''integer'')
             (lit ''Number of documents to retrieve'') (PInt 5)]
          (Some [lit ''query''])))"

definition search_web_tool :: pyval where
  "search_web_tool =
     PDict (function_tool (lit ''search_web'')
       (lit ''Search the internet for current information and news.'')
       (schema
          [param (lit ''query'') (lit ''string'') (lit ''The search query for web search''),
           param_default (lit ''max_results'') (lit ''integer'')
             (lit ''Maximum number of search results'') (PInt 5)]
          (Some [lit ''query''])))"

text \<open>\<open>AgentTools.get_available_tools\<close>; \<open>has_rag\<close> is the field of that name.\<close>

definition agent_tools_available :: "bool \<Rightarrow> pyval list" where
  "agent_tools_available has_rag =
     (if has_rag then [search_documents_tool] else []) @ [search_web_tool]"

definition results_failure :: "ustr \<Rightarrow> pydict" where
  "results_failure msg =
     [(lit ''success'', PBool False), (lit ''error'', PStr msg), (lit ''results'', PList [])]"

definition results_success :: "pyval \<Rightarrow> pyval list \<Rightarrow> nat \<Rightarrow> pydict" where
  "results_success query results n_found =
     [(lit ''success'', PBool True), (lit ''query'', query), (lit ''results'', PList results),
      (lit ''total_found'', PInt (int n_found))]"

text \<open>One step of \<open>for doc in documents\<close> in \<open>search_documents\<close>; \<open>doc.get\<close> on a
  value that is no dictionary raises \<open>AttributeError\<close>.\<close>

definition format_document :: "pyval \<Rightarrow> exn + pyval" where
  "format_document doc =
     (case doc of
        PDict d \<Rightarrow>
          (case dict_get d (lit ''metadata'') (PDict []) of
             PDict m \<Rightarrow>
               Inr (PDict [(lit ''content'', dict_get d (lit ''content'') (PStr [])),
                           (lit ''score'', dict_get m (lit ''score'') (PStr (lit ''N/A''))),
                           (lit ''source'', PStr (lit ''knowledge_base''))])
           | other \<Rightarrow> Inl (Exn AttributeError
                        ([39] @ type_name other @ [39] @ lit '' object has no attribute ''
                           @ [39] @ lit ''get'' @ [39])))
      | other \<Rightarrow> Inl (Exn AttributeError
                   ([39] @ type_name other @ [39] @ lit '' object has no attribute '' @ [39]
                      @ lit ''get'' @ [39])))"

fun format_documents :: "pyval list \<Rightarrow> pyval list \<Rightarrow> exn + pyval list" where
  "format_documents [] formatted_results = Inr formatted_results"
| "format_documents (doc # docs) formatted_results =
     (case format_document doc of
        Inl e \<Rightarrow> Inl e
      | Inr r \<Rightarrow> format_documents docs (formatted_results @ [r]))"

definition search_documents :: "services \<Rightarrow> bool \<Rightarrow> pyval \<Rightarrow> pyval \<Rightarrow> pydict" where
  "search_documents svc has_rag query num_results =
     (if \<not> has_rag then results_failure (lit ''RAG source not available'')
      else (case (case svc_retrieve svc query num_results of
                    Inl e \<Rightarrow> Inl e
                  | Inr documents \<Rightarrow> format_documents documents []) of
              Inr formatted_results \<Rightarrow>
                results_success query formatted_results (length formatted_results)
            | Inl e \<Rightarrow> results_failure (lit ''Error searching documents: '' @ str_exn e)))"

definition search_web :: "services \<Rightarrow> pyval \<Rightarrow> pyval \<Rightarrow> pydict" where
  "search_web svc query max_results =
     (case svc_web svc query max_results of
        Inr (results, n_found) \<Rightarrow> results_success query results n_found
      | Inl e \<Rightarrow> results_failure (lit ''Error searching web: '' @ str_exn e))"

text \<open>\<open>AgentTools.execute_tool(tool_name, **kwargs)\<close>.\<close>

definition agent_tools_execute_tool ::
  "services \<Rightarrow> bool \<Rightarrow> ustr \<Rightarrow> pydict \<Rightarrow> exn + pydict" where
  "agent_tools_execute_tool svc has_rag tool_name kwargs =
     (case bind_arguments (lit ''execute_tool'') [lit ''self'', lit ''tool_name''] [] [] True
             kwargs of
        Inl e \<Rightarrow> Inl e
      | Inr u \<Rightarrow>
          if tool_name = lit ''search_documents'' then
            (case bind_arguments (lit ''search_documents'') [lit ''self''] [lit ''query'']
                    [lit ''num_results''] False kwargs of
               Inl e \<Rightarrow> Inl e
             | Inr u \<Rightarrow>
                 Inr (search_documents svc has_rag (dict_get kwargs (lit ''query'') PNone)
                        (dict_get kwargs (lit ''num_results'') (PInt 5))))
          else if tool_name = lit ''search_web'' then
            (case bind_arguments (lit ''search_web'') [lit ''self''] [lit ''query'']
                    [lit ''max_results''] False kwargs of
               Inl e \<Rightarrow> Inl e
             | Inr u \<Rightarrow>
                 Inr (search_web svc (dict_get kwargs (lit ''query'') PNone)
                        (dict_get kwargs (lit ''max_results'') (PInt 5))))
          else Inr (results_failure (lit ''Unknown tool: '' @ tool_name)))"

section \<open>The file tools as the catalog describes them\<close>

record remote_tool =
  rt_name :: ustr
  rt_description :: ustr
  rt_schema :: pyval

definition read_file_schema :: pyval where
  "read_file_schema =
     schema [param (lit ''file_path'') (lit ''string'') (lit ''Path to the file to read'')]
       (Some [lit ''file_path''])"

definition write_file_schema :: pyval where
  "write_file_schema =
     schema
       [param (lit ''file_path'') (lit ''string'') (lit ''Path to the file to write''),
        param (lit ''content'') (lit ''string'') (lit ''Content to write to the file'')]
       (Some [lit ''file_path'', lit ''content''])"

definition list_directory_schema :: pyval where
  "list_directory_schema =
     schema
       [param_default (lit ''directory_path'') (lit ''string'')
          (lit ''Path to the directory to list'') (PStr [46])]
       None"

definition search_files_schema :: pyval where
  "search_files_schema =
     schema
       [param (lit ''search_term'') (lit ''string'') (lit ''Text to search for''),
        param_default (lit ''directory_path'') (lit ''string'')
          (lit ''Directory to search in'') (PStr [46]),
        param_default (lit ''file_extension'') (lit ''string'')
          (lit ''File extension to filter by (e.g., '' @ [39] @ lit ''.py'' @ [39] @ lit '', ''
             @ [39] @ lit ''.txt'' @ [39] @ lit '')'') (PStr [])]
       (Some [lit ''search_term''])"

definition file_info_schema :: pyval where
  "file_info_schema =
     schema [param (lit ''path'') (lit ''string'') (lit ''Path to the file or directory'')]
       (Some [lit ''path''])"

text \<open>\<open>handle_list_tools\<close> of the server.\<close>

definition handle_list_tools :: "remote_tool list" where
  "handle_list_tools =
     [\<lparr>rt_name = lit ''read_file'', rt_description = lit ''Read the contents of a file'',
       rt_schema = read_file_schema\<rparr>,
      \<lparr>rt_name = lit ''write_file'',
       rt_description = lit ''Write content to a file (creates or overwrites)'',
       rt_schema = write_file_schema\<rparr>,
      \<lparr>rt_name = lit ''list_directory'', rt_description = lit ''List contents of a directory'',
       rt_schema = list_directory_schema\<rparr>,
      \<lparr>rt_name = lit ''search_files'',
       rt_description = lit ''Search for text within files in a directory'',
       rt_schema = search_files_schema\<rparr>,
      \<lparr>rt_name = lit ''file_info'',
       rt_description = lit ''Get information about a file or directory'',
       rt_schema = file_info_schema\<rparr>]"

text \<open>\<open>WindowsMCPClient.get_mcp_tools\<close>.\<close>

definition win_get_mcp_tools :: "pyval list" where
  "win_get_mcp_tools =
     [PDict (function_tool (lit ''mcp_read_file'') (lit ''[MCP] Read the contents of a file'')
               read_file_schema),
      PDict (function_tool (lit ''mcp_write_file'')
               (lit ''[MCP] Write content to a file (creates or overwrites)'')
               write_file_schema),
      PDict (function_tool (lit ''mcp_list_directory'')
               (lit ''[MCP] List contents of a directory'') list_directory_schema),
      PDict (function_tool (lit ''mcp_search_files'')
               (lit ''[MCP] Search for text within files in a directory'')
               search_files_schema),
      PDict (function_tool (lit ''mcp_file_info'')
               (lit ''[MCP] Get information about a file or directory'') file_info_schema)]"

section \<open>MCPClient: the file tools over the protocol\<close>

text \<open>
  A connected server is the session \<open>client\<close>, of which the model keeps \<open>call_tool\<close>,
  and the process. A content fragment is its text, or \<open>None\<close> when it has no \<open>text\<close>
  attribute. Entries of \<open>available_tools\<close> are the dictionaries that
  \<open>connect_to_filesystem_server\<close> stores.
\<close>

record server_info =
  si_call_tool :: "ustr \<Rightarrow> pydict \<Rightarrow> ustr option list io"
  si_process :: nat

record mcp_client =
  connected_servers :: "(ustr \<times> server_info) list"
  available_tools :: "(ustr \<times> pydict) list"

definition mcp_tool_entry :: "remote_tool \<Rightarrow> ustr \<times> pydict" where
  "mcp_tool_entry tool =
     (lit ''mcp_'' @ rt_name tool,
      function_tool (lit ''mcp_'' @ rt_name tool) (lit ''[MCP] '' @ rt_description tool)
        (rt_schema tool)
      @ [(lit ''mcp_server'', PStr (lit ''filesystem'')),
         (lit ''original_name'', PStr (rt_name tool))])"

text \<open>The loop \<open>for tool in tools_result.tools\<close>: a later tool of the same name
  replaces the earlier entry.\<close>

fun store_tools :: "remote_tool list \<Rightarrow> (ustr \<times> pydict) list \<Rightarrow> (ustr \<times> pydict) list" where
  "store_tools [] tools = tools"
| "store_tools (tool # rest) tools =
     store_tools rest (AList.update (fst (mcp_tool_entry tool)) (snd (mcp_tool_entry tool)) tools)"

definition get_mcp_tools :: "mcp_client \<Rightarrow> pyval list" where
  "get_mcp_tools c =
     map PDict (filter (\<lambda>tool. lit ''mcp_server'' \<in> set (map fst tool))
                  (map snd (available_tools c)))"

definition is_mcp_tool :: "mcp_client \<Rightarrow> ustr \<Rightarrow> bool" where
  "is_mcp_tool c tool_name \<longleftrightarrow>
     startswith tool_name (lit ''mcp_'') \<and> tool_name \<in> set (map fst (available_tools c))"

text \<open>The text of the fragments, each followed by a newline.\<close>

fun text_of_contents :: "ustr option list \<Rightarrow> ustr" where
  "text_of_contents [] = []"
| "text_of_contents (None # rest) = text_of_contents rest"
| "text_of_contents (Some t # rest) = t @ [10] @ text_of_contents rest"

text \<open>\<open>d[k]\<close> where the value must be a \<open>str\<close> used as a key or a name.\<close>

definition dict_str_item :: "pydict \<Rightarrow> ustr \<Rightarrow> exn + ustr" where
  "dict_str_item d k =
     (case dict_item d k of
        Inl e \<Rightarrow> Inl e
      | Inr (PStr s) \<Rightarrow> Inr s
      | Inr other \<Rightarrow> Inl (Exn TypeError (lit ''unhashable or unexpected value'')))"

definition execute_mcp_tool :: "mcp_client \<Rightarrow> ustr \<Rightarrow> pydict \<Rightarrow> pydict io" where
  "execute_mcp_tool c tool_name arguments =
     io_try
       (case map_of (available_tools c) tool_name of
          None \<Rightarrow> io_return (failure (lit ''Unknown MCP tool: '' @ tool_name))
        | Some tool_info \<Rightarrow>
            io_bind (io_lift (dict_str_item tool_info (lit ''mcp_server''))) (\<lambda>server_name.
            io_bind (io_lift (dict_str_item tool_info (lit ''original_name'')))
              (\<lambda>original_tool_name.
                case map_of (connected_servers c) server_name of
                  None \<Rightarrow> io_return (failure (lit ''MCP server '' @ server_name
                                                 @ lit '' not connected''))
                | Some server \<Rightarrow>
                    io_bind (si_call_tool server original_tool_name arguments) (\<lambda>contents.
                      io_return (success (strip (text_of_contents contents)) tool_name)))))
       (\<lambda>e. io_return (failure (lit ''Error executing MCP tool '' @ tool_name @ lit '': ''
                                   @ str_exn e)))"

text \<open>\<open>MCPClient.cleanup\<close>: every server process is terminated and both dictionaries
  are cleared. Terminating a process takes it off the running ones.\<close>

fun terminate_all :: "(ustr \<times> server_info) list \<Rightarrow> unit io" where
  "terminate_all [] = io_return ()"
| "terminate_all ((name, info) # rest) =
     io_bind (\<lambda>w. (Inr (), w\<lparr>running := removeAll (si_process info) (running w),
                                trace := trace w @ [Terminate (si_process info)]\<rparr>))
       (\<lambda>u. terminate_all rest)"

definition mcp_client_cleanup :: "mcp_client \<Rightarrow> mcp_client io" where
  "mcp_client_cleanup c =
     io_bind (terminate_all (connected_servers c)) (\<lambda>u.
       io_return (c\<lparr>connected_servers := [], available_tools := []\<rparr>))"

section \<open>MCPIntegratedTools and MCPToolsWrapper\<close>

record integrated_tools =
  it_has_rag :: bool
  it_mcp_client :: mcp_client
  it_mcp_connected :: bool

definition integrated_available :: "integrated_tools \<Rightarrow> pyval list" where
  "integrated_available t =
     agent_tools_available (it_has_rag t)
     @ (if it_mcp_connected t then get_mcp_tools (it_mcp_client t) else [])"

definition integrated_execute_tool ::
  "services \<Rightarrow> integrated_tools \<Rightarrow> ustr \<Rightarrow> pydict \<Rightarrow> pydict io" where
  "integrated_execute_tool svc t tool_name kwargs =
     io_bind (io_lift (bind_arguments (lit ''execute_tool'') [lit ''self'', lit ''tool_name'']
                         [] [] True kwargs)) (\<lambda>u.
       if it_mcp_connected t \<and> is_mcp_tool (it_mcp_client t) tool_name
       then execute_mcp_tool (it_mcp_client t) tool_name kwargs
       else io_lift (agent_tools_execute_tool svc (it_has_rag t) tool_name kwargs))"

definition integrated_cleanup :: "integrated_tools \<Rightarrow> integrated_tools io" where
  "integrated_cleanup t =
     (if it_mcp_connected t
      then io_bind (mcp_client_cleanup (it_mcp_client t)) (\<lambda>c.
             io_return (t\<lparr>it_mcp_client := c\<rparr>))
      else io_return t)"

text \<open>
  The wrapper holds the tools and an event loop, both \<open>None\<close> until \<open>initialize\<close>
  runs. Of the loop the model keeps whether it has been closed:
  \<open>run_until_complete\<close> on a closed loop raises \<open>RuntimeError\<close>.
\<close>

datatype event_loop = LoopOpen | LoopClosed

record tools_wrapper =
  tw_mcp_tools :: "integrated_tools option"
  tw_loop :: "event_loop option"

definition new_wrapper :: tools_wrapper where
  "new_wrapper = \<lparr>tw_mcp_tools = None, tw_loop = None\<rparr>"

definition run_until_complete :: "event_loop \<Rightarrow> 'a io \<Rightarrow> 'a io" where
  "run_until_complete lp m =
     (case lp of
        LoopClosed \<Rightarrow> io_raise (Exn RuntimeError (lit ''Event loop is closed''))
      | LoopOpen \<Rightarrow> m)"

definition wrapper_available :: "tools_wrapper \<Rightarrow> pyval list" where
  "wrapper_available tw =
     (case tw_mcp_tools tw of None \<Rightarrow> [] | Some t \<Rightarrow> integrated_available t)"

definition wrapper_execute_tool ::
  "services \<Rightarrow> tools_wrapper \<Rightarrow> ustr \<Rightarrow> pydict \<Rightarrow> pydict io" where
  "wrapper_execute_tool svc tw tool_name kwargs =
     io_bind (io_lift (bind_arguments (lit ''execute_tool'') [lit ''self'', lit ''tool_name'']
                         [] [] True kwargs)) (\<lambda>u.
       case (tw_mcp_tools tw, tw_loop tw) of
         (Some t, Some lp) \<Rightarrow>
           io_try (run_until_complete lp (integrated_execute_tool svc t tool_name kwargs))
             (\<lambda>e. io_return [(lit ''success'', PBool False),
                              (lit ''error'', PStr (lit ''Error executing tool: '' @ str_exn e))])
       | _ \<Rightarrow> io_return [(lit ''success'', PBool False),
                          (lit ''error'', PStr (lit ''MCP not initialized''))])"

text \<open>\<open>MCPToolsWrapper.cleanup\<close>.\<close>

definition wrapper_cleanup :: "tools_wrapper \<Rightarrow> tools_wrapper io" where
  "wrapper_cleanup tw =
     io_bind
       (case (tw_mcp_tools tw, tw_loop tw) of
          (Some t, Some lp) \<Rightarrow>
            io_bind (run_until_complete lp (integrated_cleanup t)) (\<lambda>t'.
              io_return (tw\<lparr>tw_mcp_tools := Some t'\<rparr>))
        | _ \<Rightarrow> io_return tw)
       (\<lambda>tw'. case tw_loop tw' of
                Some lp \<Rightarrow> io_return (tw'\<lparr>tw_loop := Some LoopClosed\<rparr>)
              | None \<Rightarrow> io_return tw')"

text \<open>
  \<open>MCPToolsWrapper.initialize\<close>. What happens when the server is started is given
  from outside: the process cannot be started; it starts (with a process id) and the
  handshake or the listing of tools fails; or the session is established and the
  server lists its tools.
\<close>

datatype connect_outcome =
    SpawnFails exn
  | HandshakeFails nat exn
  | Connects nat "ustr \<Rightarrow> pydict \<Rightarrow> ustr option list io" "remote_tool list"

definition connect_to_filesystem_server ::
  "connect_outcome \<Rightarrow> mcp_client \<Rightarrow> (bool \<times> mcp_client) io" where
  "connect_to_filesystem_server outcome c =
     (case outcome of
        SpawnFails e \<Rightarrow> io_return (False, c)
      | HandshakeFails pid e \<Rightarrow>
          (\<lambda>w. (Inr (False, c), w\<lparr>running := running w @ [pid]\<rparr>))
      | Connects pid call tools \<Rightarrow>
          (\<lambda>w. (Inr (True,
                      c\<lparr>connected_servers :=
                          AList.update (lit ''filesystem'')
                            \<lparr>si_call_tool = call, si_process = pid\<rparr> (connected_servers c),
                        available_tools := store_tools tools (available_tools c)\<rparr>),
                 w\<lparr>running := running w @ [pid]\<rparr>)))"

definition wrapper_initialize ::
  "services \<Rightarrow> connect_outcome \<Rightarrow> tools_wrapper \<Rightarrow> (bool \<times> tools_wrapper) io" where
  "wrapper_initialize svc outcome tw =
     io_bind (connect_to_filesystem_server outcome
                \<lparr>connected_servers = [], available_tools = []\<rparr>) (\<lambda>(ok, c).
       io_return
         (ok, \<lparr>tw_mcp_tools = Some \<lparr>it_has_rag = svc_has_rag svc, it_mcp_client = c,
                                  it_mcp_connected = ok\<rparr>,
               tw_loop = Some LoopOpen\<rparr>))"

section \<open>WindowsMCPIntegratedTools and WindowsMCPToolsWrapper\<close>

definition win_available :: "bool \<Rightarrow> pyval list" where
  "win_available has_rag = agent_tools_available has_rag @ win_get_mcp_tools"

definition win_execute_tool :: "pyenv \<Rightarrow> services \<Rightarrow> bool \<Rightarrow> ustr \<Rightarrow> pydict \<Rightarrow> pydict io" where
  "win_execute_tool env svc has_rag tool_name kwargs =
     io_bind (io_lift (bind_arguments (lit ''execute_tool'') [lit ''self'', lit ''tool_name'']
                         [] [] True kwargs)) (\<lambda>u.
       if startswith tool_name (lit ''mcp_'')
       then win_execute_mcp_tool env tool_name kwargs
       else io_lift (agent_tools_execute_tool svc has_rag tool_name kwargs))"

section \<open>EnhancedFunctionCallingAgent\<close>

text \<open>
  The agent holds the wrapper that the platform selects (for the Windows one the model
  keeps the \<open>has_rag\<close> field of its local tools) and the flag \<open>mcp_enabled\<close>.
\<close>

datatype tools_backend = PosixBackend tools_wrapper | WindowsBackend bool

record agent =
  ag_mcp_tools :: tools_backend
  ag_mcp_enabled :: bool

definition get_available_tools :: "services \<Rightarrow> agent \<Rightarrow> pyval list" where
  "get_available_tools svc a =
     (if ag_mcp_enabled a
      then (case ag_mcp_tools a of
              PosixBackend tw \<Rightarrow> wrapper_available tw
            | WindowsBackend has_rag \<Rightarrow> win_available has_rag)
      else agent_tools_available (svc_has_rag svc))"

definition execute_tool :: "pyenv \<Rightarrow> services \<Rightarrow> agent \<Rightarrow> ustr \<Rightarrow> pydict \<Rightarrow> pydict io" where
  "execute_tool env svc a tool_name kwargs =
     io_bind (io_lift (bind_arguments (lit ''execute_tool'') [lit ''self'', lit ''tool_name'']
                         [] [] True kwargs)) (\<lambda>u.
     io_bind (log_event (Dispatch tool_name kwargs)) (\<lambda>u.
       if ag_mcp_enabled a
       then (case ag_mcp_tools a of
               PosixBackend tw \<Rightarrow> wrapper_execute_tool svc tw tool_name kwargs
             | WindowsBackend has_rag \<Rightarrow> win_execute_tool env svc has_rag tool_name kwargs)
       else io_lift (agent_tools_execute_tool svc (svc_has_rag svc) tool_name kwargs)))"

definition cli :: "cli_kind \<Rightarrow> ustr \<Rightarrow> unit io" where
  "cli kind msg = log_event (Cli kind msg)"

definition display_tool_results :: "ustr \<Rightarrow> pydict \<Rightarrow> unit io" where
  "display_tool_results tool_name tool_result =
     (if py_truthy (dict_get tool_result (lit ''success'') PNone) then
        (if startswith tool_name (lit ''mcp_'') then
           (if tool_name = lit ''mcp_list_directory''
              then cli CliSuccess ([0x1F4C1] @ lit '' Directory contents retrieved'')
            else if tool_name = lit ''mcp_read_file''
              then cli CliSuccess ([0x1F4C4] @ lit '' File read successfully'')
            else if tool_name = lit ''mcp_write_file''
              then cli CliSuccess ([0x270F, 0xFE0F] @ lit '' File written successfully'')
            else if tool_name = lit ''mcp_search_files''
              then cli CliSuccess ([0x1F50D] @ lit '' File search completed'')
            else if tool_name = lit ''mcp_file_info''
              then cli CliSuccess ([0x2139, 0xFE0F] @ lit '' File information retrieved'')
            else cli CliSuccess ([0x1F527] @ lit '' MCP tool '' @ tool_name @ lit '' executed''))
         else
           (if tool_name = lit ''search_documents'' then
              io_bind (io_lift (py_len (dict_get tool_result (lit ''results'') (PList []))))
                (\<lambda>n. cli CliSuccess ([0x1F4DA] @ lit '' Found '' @ str_of_nat n
                                       @ lit '' documents''))
            else if tool_name = lit ''search_web'' then
              io_bind (io_lift (py_len (dict_get tool_result (lit ''results'') (PList []))))
                (\<lambda>n. cli CliSuccess ([0x1F310] @ lit '' Found '' @ str_of_nat n
                                       @ lit '' web results''))
            else io_return ()))
      else cli CliWarning
             ([0x274C] @ lit '' Tool '' @ tool_name @ lit '' failed: ''
                @ text_of (dict_get tool_result (lit ''error'') (PStr (lit ''Unknown error'')))))"

definition system_message_mcp :: ustr where
  "system_message_mcp =
     join [10]
       [lit ''You are a helpful AI assistant with access to multiple tools:'',
        [],
        lit ''1. search_documents: Search through uploaded documents (RAG)'',
        lit ''2. search_web: Search the internet for current information'',
        lit ''3. mcp_read_file: Read the contents of files'',
        lit ''4. mcp_write_file: Write content to files (creates or overwrites)'',
        lit ''5. mcp_list_directory: List contents of directories'',
        lit ''6. mcp_search_files: Search for text within files in directories'',
        lit ''7. mcp_file_info: Get information about files or directories'',
        [],
        lit (''Use tools when appropriate to provide better answers. You can read, write, ''
             @ ''and manage files to help with various tasks.'')]"

definition system_message_basic :: ustr where
  "system_message_basic =
     join [10]
       [lit ''You are a helpful AI assistant with access to tools:'',
        [],
        lit ''1. search_documents: Search through uploaded documents'',
        lit ''2. search_web: Search the internet for current information'',
        [],
        lit ''Use tools when appropriate to provide better answers.'']"

definition system_message :: "agent \<Rightarrow> ustr" where
  "system_message a = (if ag_mcp_enabled a then system_message_mcp else system_message_basic)"

text \<open>\<open>**function_args\<close>: the value must be a dictionary.\<close>

definition as_mapping :: "pyval \<Rightarrow> exn + pydict" where
  "as_mapping v =
     (case v of
        PDict kvs \<Rightarrow> Inr kvs
      | _ \<Rightarrow> Inl (Exn TypeError
                (lit ''argument after ** must be a mapping, not '' @ type_name v)))"

text \<open>The loop \<open>for tool_call in tool_calls\<close>.\<close>

fun tool_round ::
  "pyenv \<Rightarrow> services \<Rightarrow> agent \<Rightarrow> tool_call list \<Rightarrow> message list \<Rightarrow> message list io" where
  "tool_round env svc a [] msgs = io_return msgs"
| "tool_round env svc a (tc # rest) msgs =
     io_bind (io_lift (env_json_loads env (call_arguments tc))) (\<lambda>args_value.
     io_bind (cli CliInfo (lit ''Using tool: '' @ call_name tc)) (\<lambda>u.
     io_bind (cli CliLoading (lit ''Executing '' @ call_name tc)) (\<lambda>u.
     io_bind (io_lift (as_mapping args_value)) (\<lambda>function_args.
     io_bind (execute_tool env svc a (call_name tc) function_args) (\<lambda>tool_result.
     io_bind (display_tool_results (call_name tc) tool_result) (\<lambda>u.
       tool_round env svc a rest
         (msgs @ [ToolMsg (call_id tc) (call_name tc) (env_json_dumps env tool_result)])))))))"

definition complete :: "services \<Rightarrow> request \<Rightarrow> response_message io" where
  "complete svc rq = io_bind (log_event (Completion rq)) (\<lambda>u. io_lift (svc_complete svc rq))"

definition print_answer :: "ustr option \<Rightarrow> unit io" where
  "print_answer answer = cli CliAnswer (case answer of None \<Rightarrow> lit ''None'' | Some t \<Rightarrow> t)"

definition gpt_model :: ustr where
  "gpt_model = lit ''openai/gpt-4o''"

definition apology :: ustr where
  "apology = lit ''Sorry, I encountered an error.''"

text \<open>The two requests to the completion service: the first offers the catalog, the
  second carries the extended conversation and offers no tools.\<close>

definition first_request :: "services \<Rightarrow> agent \<Rightarrow> ustr \<Rightarrow> request" where
  "first_request svc a user_message =
     \<lparr>rq_model = gpt_model,
      rq_messages = [RoleMsg (lit ''system'') (system_message a),
                     RoleMsg (lit ''user'') user_message],
      rq_tools = Some (get_available_tools svc a),
      rq_tool_choice = Some (lit ''auto'')\<rparr>"

definition final_request :: "message list \<Rightarrow> request" where
  "final_request msgs =
     \<lparr>rq_model = gpt_model, rq_messages = msgs, rq_tools = None, rq_tool_choice = None\<rparr>"

text \<open>
  \<open>chat_with_tools\<close>: \<open>chat_body\<close> is the block under \<open>try\<close>, \<open>chat_with_tools\<close> adds
  the \<open>except Exception\<close> clause. The answer is a \<open>str\<close>, or \<open>None\<close> when the
  completion has no content.
\<close>

definition chat_body :: "pyenv \<Rightarrow> services \<Rightarrow> agent \<Rightarrow> ustr \<Rightarrow> ustr option io" where
  "chat_body env svc a user_message =
     io_bind (cli CliQuestion user_message) (\<lambda>u.
     io_bind (cli CliLoading (lit ''Thinking'')) (\<lambda>u.
     io_bind (complete svc (first_request svc a user_message)) (\<lambda>response_message.
       case rm_tool_calls response_message of
         Some (tc # tcs) \<Rightarrow>
           io_bind (tool_round env svc a (tc # tcs)
                      (rq_messages (first_request svc a user_message)
                       @ [AssistantMsg response_message])) (\<lambda>msgs.
           io_bind (cli CliLoading (lit ''Generating final response'')) (\<lambda>u.
           io_bind (complete svc (final_request msgs)) (\<lambda>final_response.
           io_bind (print_answer (rm_content final_response)) (\<lambda>u.
             io_return (rm_content final_response)))))
       | _ \<Rightarrow>
           io_bind (print_answer (rm_content response_message)) (\<lambda>u.
             io_return (rm_content response_message)))))"

definition chat_with_tools ::
  "pyenv \<Rightarrow> services \<Rightarrow> agent \<Rightarrow> ustr \<Rightarrow> ustr option io" where
  "chat_with_tools env svc a user_message =
     io_try (chat_body env svc a user_message)
       (\<lambda>e. io_bind (cli CliError (lit ''Error: '' @ str_exn e)) (\<lambda>u.
              io_return (Some apology)))"

text \<open>\<open>EnhancedFunctionCallingAgent.cleanup\<close>.\<close>

definition agent_cleanup :: "agent \<Rightarrow> agent io" where
  "agent_cleanup a =
     (if ag_mcp_enabled a
      then (case ag_mcp_tools a of
              PosixBackend tw \<Rightarrow>
                io_bind (wrapper_cleanup tw) (\<lambda>tw'.
                  io_return (a\<lparr>ag_mcp_tools := PosixBackend tw'\<rparr>))
            | WindowsBackend has_rag \<Rightarrow> io_return a)
      else io_return a)"

section \<open>Notions the properties are stated with\<close>




text \<open>
  A result of the MCP entry points in the shape the callers rely on: a boolean
  \<open>success\<close>; with it false, a non-empty \<open>error\<close> text and the empty \<open>result\<close>; with
  it true, a \<open>result\<close> text.
\<close>

definition well_formed_result :: "pydict \<Rightarrow> bool" where
  "well_formed_result r =
     (case map_of r (lit ''success'') of
        Some (PBool True) \<Rightarrow>
          (case map_of r (lit ''result'') of Some (PStr s) \<Rightarrow> True | _ \<Rightarrow> False)
      | Some (PBool False) \<Rightarrow>
          (case map_of r (lit ''error'') of Some (PStr m) \<Rightarrow> m \<noteq> [] | _ \<Rightarrow> False)
          \<and> map_of r (lit ''result'') = Some (PStr [])
      | _ \<Rightarrow> False)"

text \<open>
  The path text \<open>p\<close>, taken from the directory \<open>start\<close> when it is relative, resolves
  to a place that is neither \<open>base\<close> nor below it.
\<close>

definition outside_base :: "store \<Rightarrow> path \<Rightarrow> path \<Rightarrow> ustr \<Rightarrow> bool" where
  "outside_base st start base p =
     (case resolve st start p of Inr rp \<Rightarrow> \<not> prefix base rp | Inl e \<Rightarrow> False)"

definition denied_text :: ustr where
  "denied_text = lit ''Access denied: Path outside base directory''"

text \<open>
  The tool names that a system prompt enumerates: the lines of the form
  \<open>N. name: description\<close>, read in order.
\<close>

definition is_digit :: "nat \<Rightarrow> bool" where
  "is_digit c \<longleftrightarrow> 48 \<le> c \<and> c \<le> 57"

definition enumerated_name :: "ustr \<Rightarrow> ustr option" where
  "enumerated_name line =
     (let digits = takeWhile is_digit line; rest = dropWhile is_digit line in
      if digits \<noteq> [] \<and> prefix [46, 32] rest \<and> 58 \<in> set rest
      then Some (takeWhile (\<lambda>c. c \<noteq> 58) (drop 2 rest))
      else None)"

definition prompt_tool_names :: "ustr \<Rightarrow> ustr list" where
  "prompt_tool_names prompt = List.map_filter enumerated_name (split_on 10 prompt)"

definition catalog_names :: "pyval list \<Rightarrow> ustr list" where
  "catalog_names tools = List.map_filter tool_name_of tools"

text \<open>
  Partial and total correctness of an action: \<open>io_post m P\<close> says that every value
  \<open>m\<close> returns satisfies \<open>P\<close>, \<open>io_total m P\<close> that \<open>m\<close> always returns a value, and
  one that satisfies \<open>P\<close>.
\<close>

definition io_post :: "'a io \<Rightarrow> ('a \<Rightarrow> bool) \<Rightarrow> bool" where
  "io_post m P \<longleftrightarrow> (\<forall>w x w'. m w = (Inr x, w') \<longrightarrow> P x)"

definition io_total :: "'a io \<Rightarrow> ('a \<Rightarrow> bool) \<Rightarrow> bool" where
  "io_total m P \<longleftrightarrow> (\<forall>w. \<exists>x w'. m w = (Inr x, w') \<and> P x)"

section \<open>A sandbox to run the operations in\<close>

text \<open>
  The directory \<open>/sandbox\<close> with the file \<open>notes.txt\<close> (the five bytes of \<open>hello\<close>),
  the directory \<open>docs\<close> and the link \<open>out\<close> to \<open>/etc\<close>; outside it \<open>/etc/passwd\<close>.
  The interpreter runs in \<open>/sandbox\<close> on a POSIX system, and \<open>json.loads\<close> knows the
  two argument texts used below.
\<close>

definition sandbox_store :: store where
  "sandbox_store =
     [([], Dir),
      ([lit ''sandbox''], Dir),
      ([lit ''sandbox'', lit ''notes.txt''], File [0x68, 0x65, 0x6C, 0x6C, 0x6F]),
      ([lit ''sandbox'', lit ''docs''], Dir),
      ([lit ''sandbox'', lit ''out''], Symlink (lit ''/etc'')),
      ([lit ''etc''], Dir),
      ([lit ''etc'', lit ''passwd''], File [0x72, 0x6F, 0x6F, 0x74])]"

definition sandbox_world :: world where
  "sandbox_world = \<lparr>store = sandbox_store, trace = [], running = []\<rparr>"

definition sandbox_env :: pyenv where
  "sandbox_env =
     \<lparr>env_cwd = [lit ''sandbox''],
      env_linesep = [10],
      env_lower = ascii_lower,
      env_dir_size = (\<lambda>p. 4096),
      env_mtime = (\<lambda>p. lit ''0.0''),
      env_mode = (\<lambda>p. 0),
      env_json_loads =
        (\<lambda>s. if s = lit ''{}'' then Inr (PDict [])
             else if s = lit ''[]'' then Inr (PList [])
             else Inl (Exn JSONDecodeError (lit ''Expecting value''))),
      env_json_dumps = (\<lambda>d. lit ''{}'')\<rparr>"

text \<open>Services: a completion service that answers \<open>hi\<close> without tool calls, or always
  fails; no RAG source.\<close>

definition plain_answer :: response_message where
  "plain_answer = \<lparr>rm_content = Some (lit ''hi''), rm_tool_calls = None\<rparr>"

definition answering_services :: services where
  "answering_services =
     \<lparr>svc_complete = (\<lambda>rq. Inr plain_answer),
      svc_retrieve = (\<lambda>q n. Inr []),
      svc_web = (\<lambda>q n. Inr ([], 0)),
      svc_has_rag = False\<rparr>"

definition failing_services :: services where
  "failing_services =
     \<lparr>svc_complete = (\<lambda>rq. Inl (Exn OtherException (lit ''rate limit''))),
      svc_retrieve = (\<lambda>q n. Inr []),
      svc_web = (\<lambda>q n. Inr ([], 0)),
      svc_has_rag = True\<rparr>"

text \<open>A completion service that asks for \<open>search_web\<close> with the empty argument
  object.\<close>

definition web_call :: tool_call where
  "web_call = \<lparr>call_id = lit ''call_1'', call_name = lit ''search_web'',
               call_arguments = lit ''{}''\<rparr>"

definition calling_services :: services where
  "calling_services =
     \<lparr>svc_complete = (\<lambda>rq. Inr \<lparr>rm_content = None, rm_tool_calls = Some [web_call]\<rparr>),
      svc_retrieve = (\<lambda>q n. Inr []),
      svc_web = (\<lambda>q n. Inr ([], 0)),
      svc_has_rag = False\<rparr>"

definition basic_agent :: agent where
  "basic_agent = \<lparr>ag_mcp_tools = WindowsBackend False, ag_mcp_enabled = False\<rparr>"

definition windows_agent :: agent where
  "windows_agent = \<lparr>ag_mcp_tools = WindowsBackend True, ag_mcp_enabled = True\<rparr>"

text \<open>
  The catalog holds what the system prompt counts on: the document search of the RAG
  source and, with the file tools enabled, the five tools of the file server (the
  Windows client always offers them; the protocol client does when it is connected and
  its table is what the server lists).
\<close>

definition catalog_complete :: "services \<Rightarrow> agent \<Rightarrow> bool" where
  "catalog_complete svc a =
     (if ag_mcp_enabled a
      then (case ag_mcp_tools a of
              WindowsBackend has_rag \<Rightarrow> has_rag
            | PosixBackend tw \<Rightarrow>
                (case tw_mcp_tools tw of
                   None \<Rightarrow> False
                 | Some t \<Rightarrow>
                     it_has_rag t \<and> it_mcp_connected t
                     \<and> available_tools (it_mcp_client t) = store_tools handle_list_tools []))
      else svc_has_rag svc)"






text \<open>Notions for reasoning about resolution: the link at a path, a name that is not
  empty, \<open>.\<close> or \<open>..\<close>, and a path of such names none of whose prefixes is a link.\<close>

definition link_at :: "store \<Rightarrow> path \<Rightarrow> ustr option" where
  "link_at st x = (case lookup st x of Some (Symlink t) \<Rightarrow> Some t | _ \<Rightarrow> None)"

definition normal_name :: "ustr \<Rightarrow> bool" where
  "normal_name c \<longleftrightarrow> c \<noteq> [] \<and> c \<noteq> [46] \<and> c \<noteq> [46, 46]"

definition canonical :: "store \<Rightarrow> path \<Rightarrow> bool" where
  "canonical st q \<longleftrightarrow>
     list_all normal_name q \<and> list_all (\<lambda>x. x = [] \<or> link_at st x = None) (prefixes q)"

section \<open>What a search reports, in the words of the specification\<close>

text \<open>
  The lines of a text numbered from 1, and those among them that contain the term,
  upper and lower case taken as the same.
\<close>

definition numbered_lines :: "ustr \<Rightarrow> (nat \<times> ustr) list" where
  "numbered_lines content =
     zip [1..<Suc (length (split_on 10 content))] (split_on 10 content)"

definition matching_lines :: "(ustr \<Rightarrow> ustr) \<Rightarrow> ustr \<Rightarrow> ustr \<Rightarrow> (nat \<times> ustr) list" where
  "matching_lines lower term content =
     filter (\<lambda>(i, line). str_contains (lower term) (lower line)) (numbered_lines content)"








section \<open>Rules for actions\<close>

lemma io_post_return: "P x \<Longrightarrow> io_post (io_return x) P"
  by (simp add: io_post_def io_return_def)

lemma io_post_raise: "io_post (io_raise e) P"
  by (simp add: io_post_def io_raise_def)

lemma io_post_bind: "(\<And>x. io_post (f x) P) \<Longrightarrow> io_post (io_bind m f) P"
  by (auto simp: io_post_def io_bind_def split: prod.splits sum.splits)

lemma io_post_try: "io_post m P \<Longrightarrow> (\<And>e. io_post (h e) P) \<Longrightarrow> io_post (io_try m h) P"
  by (auto simp: io_post_def io_try_def split: prod.splits sum.splits)

lemma io_post_if:
  "(c \<Longrightarrow> io_post m P) \<Longrightarrow> (\<not> c \<Longrightarrow> io_post n P) \<Longrightarrow> io_post (if c then m else n) P"
  by simp

lemma io_post_option:
  "(x = None \<Longrightarrow> io_post a P) \<Longrightarrow> (\<And>y. x = Some y \<Longrightarrow> io_post (b y) P)
   \<Longrightarrow> io_post (case x of None \<Rightarrow> a | Some y \<Rightarrow> b y) P"
  by (cases x) auto

lemma io_total_return: "P x \<Longrightarrow> io_total (io_return x) P"
  by (simp add: io_total_def io_return_def)

lemma io_total_if:
  "(c \<Longrightarrow> io_total m P) \<Longrightarrow> (\<not> c \<Longrightarrow> io_total n P) \<Longrightarrow> io_total (if c then m else n) P"
  by simp

lemma io_total_try: "io_post m P \<Longrightarrow> (\<And>e. io_total (h e) P) \<Longrightarrow> io_total (io_try m h) P"
  unfolding io_post_def io_total_def io_try_def
  apply (intro allI)
  subgoal for w
    apply (cases "m w")
    subgoal for r w'
      by (cases r) auto
    done
  done

lemma io_total_post: "io_total m P \<Longrightarrow> io_post m P"
  unfolding io_total_def io_post_def by (metis Pair_inject sum.inject(2))

section \<open>The shape of the results of the MCP entry points\<close>

lemma wf_failure: "s \<noteq> [] \<Longrightarrow> well_formed_result (failure (lit s @ m))"
  by (cases s) (simp_all add: well_formed_result_def failure_def lit_def)

lemma wf_success: "well_formed_result (success res tool)"
  by (simp add: well_formed_result_def success_def lit_def)

lemmas io_rules = io_post_return io_post_raise io_post_bind io_post_try io_post_if
  io_total_try io_total_return io_total_if wf_success wf_failure

lemma read_file_direct_wf: "io_total (read_file_direct env v) well_formed_result"
  unfolding read_file_direct_def
  by (intro io_rules; simp)+

lemma write_file_direct_wf: "io_total (write_file_direct env v c) well_formed_result"
  unfolding write_file_direct_def
  by (intro io_rules; simp)+

lemma list_directory_direct_wf: "io_total (list_directory_direct env v) well_formed_result"
  unfolding list_directory_direct_def
  by (intro io_rules; simp)+

lemma search_files_direct_wf: "io_total (search_files_direct env t v x) well_formed_result"
  unfolding search_files_direct_def
  by (intro io_rules; simp)+

lemma file_info_direct_wf: "io_total (file_info_direct env v) well_formed_result"
  unfolding file_info_direct_def
  by (intro io_rules; simp)+

lemma win_execute_mcp_tool_total:
  "io_total (win_execute_mcp_tool env tool_name arguments) well_formed_result"
  unfolding win_execute_mcp_tool_def Let_def
  by (intro io_rules io_total_post read_file_direct_wf write_file_direct_wf
        list_directory_direct_wf search_files_direct_wf file_info_direct_wf; simp)+

lemma execute_mcp_tool_total:
  "io_total (execute_mcp_tool c tool_name arguments) well_formed_result"
  unfolding execute_mcp_tool_def
  by (intro io_rules io_post_option; simp)+

text \<open>
  Claim C10. Whatever the tool name, the arguments, the client and the state of the
  world, \<open>WindowsMCPClient.execute_mcp_tool\<close> and \<open>MCPClient.execute_mcp_tool\<close> return
  (they do not raise), and what they return is a dictionary with a boolean \<open>success\<close>;
  when it is false there is a non-empty \<open>error\<close> text and \<open>result\<close> is the empty
  text, when it is true there is a \<open>result\<close> text.
\<close>

theorem mcp_results_well_formed:
  "(\<exists>r w'. win_execute_mcp_tool env tool_name arguments w = (Inr r, w') \<and> well_formed_result r)
   \<and> (\<exists>r w'. execute_mcp_tool c tool_name arguments w = (Inr r, w') \<and> well_formed_result r)"
  using win_execute_mcp_tool_total[of env tool_name arguments]
    execute_mcp_tool_total[of c tool_name arguments]
  unfolding io_total_def by blast

section \<open>The sandbox check\<close>

lemma win_safe_path_denied:
  assumes "resolve st (env_cwd env) [46] = Inr base" and "outside_base st (env_cwd env) base p"
  shows "win_safe_path env st (PStr p) = Inl access_denied"
  using assms
  by (auto simp: win_safe_path_def outside_base_def pathlib_Path_def split: sum.splits)

lemma srv_safe_path_denied:
  assumes "outside_base st base base p"
  shows "srv_safe_path base st (PStr p) = Inl access_denied"
  using assms
  by (auto simp: srv_safe_path_def outside_base_def pathlib_Path_def split: sum.splits)

lemma str_exn_denied: "str_exn access_denied = denied_text"
  by (simp add: access_denied_def denied_text_def)

lemma class_denied: "exn_class_of access_denied = PermissionError"
  by (simp add: access_denied_def)

lemma win_denied_run:
  assumes "resolve (store w) (env_cwd env) [46] = Inr cwd_resolved"
    and "outside_base (store w) (env_cwd env) cwd_resolved p"
  shows "io_try (io_bind (win_safe_path_io env (PStr p)) f) h w = h access_denied w"
  using win_safe_path_denied[OF assms]
  by (simp add: io_try_def io_bind_def win_safe_path_io_def)

lemma srv_denied_run:
  assumes "outside_base (store w) base base q"
  shows "io_try (io_bind (srv_safe_path_io base (PStr q)) f) h w = h access_denied w"
  using srv_safe_path_denied[OF assms]
  by (simp add: io_try_def io_bind_def srv_safe_path_io_def)

text \<open>
  Claim C1. When the path given to an operation resolves (relative paths taken from
  the base, \<open>.\<close>, \<open>..\<close> and symbolic links resolved) to a place that is neither the
  base directory nor below it, each of read, write, list, search and info, in the
  in-process client (path \<open>p\<close>, base the working directory) and in the server (path
  \<open>q\<close>, base its \<open>base_directory\<close>), answers with the failure
  \<open>Access denied: Path outside base directory\<close> and leaves the world as it was: the
  store is unchanged and no file system call is added to the trace.
\<close>

theorem sandbox_escape_denied:
  assumes "resolve (store w) (env_cwd env) [46] = Inr cwd_resolved"
    and "outside_base (store w) (env_cwd env) cwd_resolved p"
    and "outside_base (store w) base base q"
  shows "read_file_direct env (PStr p) w
           = (Inr (failure (lit ''Error reading file: '' @ denied_text)), w)
    \<and> write_file_direct env (PStr p) content w
           = (Inr (failure (lit ''Error writing file: '' @ denied_text)), w)
    \<and> list_directory_direct env (PStr p) w
           = (Inr (failure (lit ''Error listing directory: '' @ denied_text)), w)
    \<and> search_files_direct env search_term (PStr p) ext w
           = (Inr (failure (lit ''Error searching files: '' @ denied_text)), w)
    \<and> file_info_direct env (PStr p) w
           = (Inr (failure (lit ''Error getting file info: '' @ denied_text)), w)
    \<and> srv_read_file base (PStr q) w = (Inr [lit ''Error reading file: '' @ denied_text], w)
    \<and> srv_write_file env base (PStr q) content w
           = (Inr [lit ''Error writing file: '' @ denied_text], w)
    \<and> srv_list_directory env base (PStr q) w
           = (Inr [lit ''Error listing directory: '' @ denied_text], w)
    \<and> srv_search_files env base search_term (PStr q) ext w
           = (Inr [lit ''Error searching files: '' @ denied_text], w)
    \<and> srv_file_info env base (PStr q) w
           = (Inr [lit ''Error getting file info: '' @ denied_text], w)"
proof -
  note simps = win_denied_run[OF assms(1,2)] srv_denied_run[OF assms(3)] str_exn_denied
    class_denied io_return_def
  have "read_file_direct env (PStr p) w
           = (Inr (failure (lit ''Error reading file: '' @ denied_text)), w)"
    unfolding read_file_direct_def by (simp add: simps)
  moreover have "write_file_direct env (PStr p) content w
           = (Inr (failure (lit ''Error writing file: '' @ denied_text)), w)"
    unfolding write_file_direct_def by (simp add: simps)
  moreover have "list_directory_direct env (PStr p) w
           = (Inr (failure (lit ''Error listing directory: '' @ denied_text)), w)"
    unfolding list_directory_direct_def by (simp add: simps)
  moreover have "search_files_direct env search_term (PStr p) ext w
           = (Inr (failure (lit ''Error searching files: '' @ denied_text)), w)"
    unfolding search_files_direct_def by (simp add: simps)
  moreover have "file_info_direct env (PStr p) w
           = (Inr (failure (lit ''Error getting file info: '' @ denied_text)), w)"
    unfolding file_info_direct_def by (simp add: simps)
  moreover have "srv_read_file base (PStr q) w
           = (Inr [lit ''Error reading file: '' @ denied_text], w)"
    unfolding srv_read_file_def by (simp add: simps)
  moreover have "srv_write_file env base (PStr q) content w
           = (Inr [lit ''Error writing file: '' @ denied_text], w)"
    unfolding srv_write_file_def by (simp add: simps)
  moreover have "srv_list_directory env base (PStr q) w
           = (Inr [lit ''Error listing directory: '' @ denied_text], w)"
    unfolding srv_list_directory_def by (simp add: simps)
  moreover have "srv_search_files env base search_term (PStr q) ext w
           = (Inr [lit ''Error searching files: '' @ denied_text], w)"
    unfolding srv_search_files_def by (simp add: simps)
  moreover have "srv_file_info env base (PStr q) w
           = (Inr [lit ''Error getting file info: '' @ denied_text], w)"
    unfolding srv_file_info_def by (simp add: simps)
  ultimately show ?thesis by blast
qed

lemma sandbox_resolve_cwd:
  "resolve sandbox_store [lit ''sandbox''] [46] = Inr [lit ''sandbox'']"
  by (simp add: resolve_def realpath_def sandbox_store_def lookup_def is_absolute_def
      startswith_def components_def lit_def eval_nat_numeral)

lemma sandbox_outside_link:
  "outside_base sandbox_store [lit ''sandbox''] [lit ''sandbox''] (lit ''out/passwd'')"
  by (simp add: outside_base_def resolve_def realpath_def sandbox_store_def lookup_def
      is_absolute_def startswith_def components_def lit_def eval_nat_numeral)

lemma sandbox_outside_dotdot:
  "outside_base sandbox_store [lit ''sandbox''] [lit ''sandbox''] (lit ''../etc/passwd'')"
  by (simp add: outside_base_def resolve_def realpath_def sandbox_store_def lookup_def
      is_absolute_def startswith_def components_def lit_def eval_nat_numeral)

text \<open>
  In the sandbox, reading \<open>out/passwd\<close> through the link and writing
  \<open>../etc/passwd\<close> are both refused, and the world stays as it was.
\<close>

theorem sandbox_escape_denied_witness:
  "read_file_direct sandbox_env (PStr (lit ''out/passwd'')) sandbox_world
     = (Inr (failure (lit ''Error reading file: '' @ denied_text)), sandbox_world)
   \<and> srv_write_file sandbox_env [lit ''sandbox''] (PStr (lit ''../etc/passwd''))
        (PStr (lit ''x'')) sandbox_world
     = (Inr [lit ''Error writing file: '' @ denied_text], sandbox_world)"
  using sandbox_escape_denied[of sandbox_world sandbox_env "[lit ''sandbox'']"
      "lit ''out/passwd''" "[lit ''sandbox'']" "lit ''../etc/passwd''" "PStr (lit ''x'')"]
    sandbox_resolve_cwd sandbox_outside_link sandbox_outside_dotdot
  by (simp add: sandbox_world_def sandbox_env_def)

section \<open>The invocation loop\<close>






section \<open>Dispatch of the local tools\<close>

text \<open>
  Claim C3. \<open>AgentTools.execute_tool\<close> does not always return a result: called for
  \<open>search_web\<close> with arguments that lack \<open>query\<close>, binding the arguments raises
  \<open>TypeError\<close>, which nothing in \<open>execute_tool\<close> catches.
\<close>

theorem local_dispatch_raises:
  "agent_tools_execute_tool svc has_rag (lit ''search_web'') [(lit ''max_results'', PInt 3)]
     = Inl (Exn TypeError
         (lit ''search_web() missing required positional argument: '' @ [39] @ lit ''query''
            @ [39]))"
  by (simp add: agent_tools_execute_tool_def bind_arguments_def lit_def)

lemma local_dispatch_unknown_tool:
  "tool_name \<noteq> lit ''search_documents'' \<Longrightarrow> tool_name \<noteq> lit ''search_web''
   \<Longrightarrow> lit ''self'' \<notin> set (map fst kwargs) \<Longrightarrow> lit ''tool_name'' \<notin> set (map fst kwargs)
   \<Longrightarrow> agent_tools_execute_tool svc has_rag tool_name kwargs
         = Inr (results_failure (lit ''Unknown tool: '' @ tool_name))"
proof -
  assume "lit ''self'' \<notin> set (map fst kwargs)" and "lit ''tool_name'' \<notin> set (map fst kwargs)"
  then have "filter (\<lambda>k. k = lit ''self'' \<or> k = lit ''tool_name'') (map fst kwargs) = []"
    by (force simp: filter_empty_conv image_iff)
  moreover assume "tool_name \<noteq> lit ''search_documents''" and "tool_name \<noteq> lit ''search_web''"
  ultimately show ?thesis
    by (simp add: agent_tools_execute_tool_def bind_arguments_def)
qed

text \<open>In the loop, with the file tools off, that exception ends the tool round: the
  answer is the apology.\<close>

lemma dispatch_failure_apology:
  "fst (chat_with_tools sandbox_env calling_services basic_agent (lit ''hello'') sandbox_world)
     = Inr (Some (lit ''Sorry, I encountered an error.''))"
proof -
  have args: "env_json_loads sandbox_env (call_arguments web_call) = Inr (PDict [])"
    by (simp add: sandbox_env_def web_call_def)
  have raise: "agent_tools_execute_tool calling_services False (lit ''search_web'') []
                 = Inl (Exn TypeError
                     (lit ''search_web() missing required positional argument: '' @ [39]
                        @ lit ''query'' @ [39]))"
    by (simp add: agent_tools_execute_tool_def bind_arguments_def lit_def)
  have name: "call_name web_call = lit ''search_web''"
    by (simp add: web_call_def)
  have norag: "svc_has_rag calling_services = False" and off: "\<not> ag_mcp_enabled basic_agent"
    by (simp_all add: calling_services_def basic_agent_def)
  have first: "svc_complete calling_services rq
                 = Inr \<lparr>rm_content = None, rm_tool_calls = Some [web_call]\<rparr>" for rq
    by (simp add: calling_services_def)
  show ?thesis
    by (simp add: chat_with_tools_def chat_body_def io_try_def io_bind_def cli_def log_event_def
        complete_def io_lift_def first args name as_mapping_def execute_tool_def
        bind_arguments_def off norag raise io_return_def apology_def)
qed

section \<open>Cleaning up the wrapper\<close>

lemma cleanup_never_initialized: "wrapper_cleanup new_wrapper w = (Inr new_wrapper, w)"
  by (simp add: wrapper_cleanup_def new_wrapper_def io_bind_def io_return_def)

lemma terminate_all_returns: "\<exists>u w'. terminate_all xs w = (Inr u, w')"
  by (induction xs arbitrary: w) (auto simp: io_return_def io_bind_def)

text \<open>
  Claim C9. After \<open>initialize\<close>, whatever came of the connection, the first
  \<open>MCPToolsWrapper.cleanup\<close> returns and the second one raises \<open>RuntimeError\<close>: the
  closed loop is still in \<open>_loop\<close>, and \<open>run_until_complete\<close> is called on it.
\<close>

theorem second_cleanup_raises:
  "\<exists>ok tw w1 tw2 w2.
     wrapper_initialize svc outcome new_wrapper w = (Inr (ok, tw), w1)
     \<and> wrapper_cleanup tw w1 = (Inr tw2, w2)
     \<and> wrapper_cleanup tw2 w2 = (Inl (Exn RuntimeError (lit ''Event loop is closed'')), w2)"
proof (cases outcome)
  case (SpawnFails e)
  then show ?thesis
    by (auto simp: wrapper_initialize_def connect_to_filesystem_server_def wrapper_cleanup_def
        io_bind_def io_return_def run_until_complete_def integrated_cleanup_def io_raise_def)
next
  case (HandshakeFails pid e)
  then show ?thesis
    by (auto simp: wrapper_initialize_def connect_to_filesystem_server_def wrapper_cleanup_def
        io_bind_def io_return_def run_until_complete_def integrated_cleanup_def io_raise_def)
next
  case (Connects pid call tools)
  obtain u w' where "terminate_all [(lit ''filesystem'',
      \<lparr>si_call_tool = call, si_process = pid\<rparr>)] (w\<lparr>running := running w @ [pid]\<rparr>) = (Inr u, w')"
    using terminate_all_returns by blast
  with Connects show ?thesis
    by (auto simp: wrapper_initialize_def connect_to_filesystem_server_def wrapper_cleanup_def
        io_bind_def io_return_def run_until_complete_def integrated_cleanup_def io_raise_def
        mcp_client_cleanup_def)
qed

section \<open>The system prompt and the catalog\<close>

lemma prompt_names_basic:
  "prompt_tool_names system_message_basic = [lit ''search_documents'', lit ''search_web'']"
  by (simp add: prompt_tool_names_def system_message_basic_def enumerated_name_def
        List.map_filter_def lit_def is_digit_def Let_def)

lemma prompt_names_mcp:
  "prompt_tool_names system_message_mcp =
     [lit ''search_documents'', lit ''search_web'', lit ''mcp_read_file'', lit ''mcp_write_file'',
      lit ''mcp_list_directory'', lit ''mcp_search_files'', lit ''mcp_file_info'']"
  by (simp add: prompt_tool_names_def system_message_mcp_def enumerated_name_def
        List.map_filter_def lit_def is_digit_def Let_def)

lemma catalog_names_agent_tools:
  "catalog_names (agent_tools_available has_rag) =
     (if has_rag then [lit ''search_documents''] else []) @ [lit ''search_web'']"
  by (simp add: catalog_names_def agent_tools_available_def List.map_filter_def
        tool_name_of_def search_documents_tool_def search_web_tool_def function_tool_def lit_def)

lemma catalog_names_win_mcp:
  "catalog_names win_get_mcp_tools =
     [lit ''mcp_read_file'', lit ''mcp_write_file'',
      lit ''mcp_list_directory'', lit ''mcp_search_files'', lit ''mcp_file_info'']"
  by (simp add: catalog_names_def win_get_mcp_tools_def List.map_filter_def
        tool_name_of_def function_tool_def lit_def)

lemma catalog_names_append: "catalog_names (xs @ ys) = catalog_names xs @ catalog_names ys"
  by (simp add: catalog_names_def List.map_filter_def)

lemma catalog_names_server:
  "available_tools c = store_tools handle_list_tools [] \<Longrightarrow>
   catalog_names (get_mcp_tools c) =
     [lit ''mcp_read_file'', lit ''mcp_write_file'',
      lit ''mcp_list_directory'', lit ''mcp_search_files'', lit ''mcp_file_info'']"
  by (simp add: get_mcp_tools_def catalog_names_def handle_list_tools_def mcp_tool_entry_def
        List.map_filter_def tool_name_of_def function_tool_def lit_def)

text \<open>
  Claim C5, as stated, fails: without the RAG source and with the file tools off, the
  prompt names \<open>search_documents\<close>, which the catalog does not offer.
\<close>

theorem prompt_names_counterexample:
  "set (prompt_tool_names (system_message basic_agent))
     \<noteq> set (catalog_names (get_available_tools answering_services basic_agent))"
  by (simp add: system_message_def basic_agent_def get_available_tools_def
      answering_services_def prompt_names_basic catalog_names_agent_tools lit_def)

text \<open>
  Claim C5, amended. The prompt is one of two fixed texts chosen by \<open>mcp_enabled\<close>.
  When the catalog is complete (the RAG source is there and, with the file tools
  enabled, the five file tools are offered), the names the prompt enumerates are the
  names of the catalog, in the same order.
\<close>

theorem prompt_names_catalog:
  assumes "catalog_complete svc a"
  shows "prompt_tool_names (system_message a) = catalog_names (get_available_tools svc a)"
proof (cases "ag_mcp_enabled a")
  case False
  with assms show ?thesis
    by (simp add: catalog_complete_def system_message_def get_available_tools_def
        prompt_names_basic catalog_names_agent_tools)
next
  case True
  show ?thesis
  proof (cases "ag_mcp_tools a")
    case (WindowsBackend has_rag)
    with True assms show ?thesis
      by (simp add: catalog_complete_def system_message_def get_available_tools_def
          win_available_def prompt_names_mcp catalog_names_append catalog_names_agent_tools
          catalog_names_win_mcp)
  next
    case (PosixBackend tw)
    with True assms obtain t where t: "tw_mcp_tools tw = Some t" "it_has_rag t"
      "it_mcp_connected t" "available_tools (it_mcp_client t) = store_tools handle_list_tools []"
      by (auto simp: catalog_complete_def split: option.splits)
    with True PosixBackend show ?thesis
      by (simp add: system_message_def get_available_tools_def wrapper_available_def
          integrated_available_def prompt_names_mcp catalog_names_append
          catalog_names_agent_tools catalog_names_server)
  qed
qed

text \<open>On Windows with the RAG source, the seven names of the prompt are the catalog.\<close>

theorem prompt_names_catalog_witness:
  "catalog_complete failing_services windows_agent
   \<and> prompt_tool_names (system_message windows_agent)
       = catalog_names (get_available_tools failing_services windows_agent)"
proof -
  have c: "catalog_complete failing_services windows_agent"
    by (simp add: catalog_complete_def windows_agent_def)
  from prompt_names_catalog[OF c] c show ?thesis by simp
qed

section \<open>Encoding, newlines and written files\<close>


























section \<open>Resolution of paths\<close>


















lemma canonical_cong: "(\<And>x. link_at st' x = link_at st x) \<Longrightarrow> canonical st' q = canonical st q"
  by (simp add: canonical_def)


section \<open>Writing and reading back\<close>



















section \<open>Searching\<close>
























end
